theory Spec2Isabelle
  imports Main "HOL-Library.Sublist"
begin

section \<open>Python values\<close>

text \<open>
  A Python \<open>str\<close> is a sequence of Unicode code points; it is modelled as the list of
  its code points. String literals of the source that are not ASCII are written as
  hexadecimal code points, ASCII runs through \<open>ascii\<close>.
\<close>

type_synonym pystr = "nat list"

definition ascii :: "string \<Rightarrow> pystr" where
  "ascii s = map of_char s"

text \<open>
  A Python \<open>float\<close> is carried as the value it denotes (sign, mantissa, binary
  exponent), or one of the special values \<open>json.loads\<close> accepts. No arithmetic is done
  on it: the program only tests it for truth and prints it.
\<close>

datatype pyfloat = Finite bool nat int | Infinite bool | NaN

text \<open>
  What \<open>response.json()\<close> returns, and what the dictionaries of the program hold
  (\<open>Dict[str, Any]\<close>). A dictionary is an association list read through \<open>map_of\<close>
  (where a key occurs twice, its first entry is the value of the key).
\<close>

datatype json =
    JNull
  | JBool bool
  | JInt int
  | JFloat pyfloat
  | JStr pystr
  | JArr "json list"
  | JObj "(pystr \<times> json) list"

type_synonym dict = "(pystr \<times> json) list"

text \<open>
  The exceptions that can be raised: by the HTTP client (a network failure, a response
  status that is an error, a body that is not JSON) and by the operations on values.
\<close>

datatype py_exn =
    RequestError
  | HTTPStatusError
  | ValueError
  | AttributeError
  | KeyError
  | TypeError
  | IndexError

text \<open>Sequencing of a computation that may raise: the first exception wins.\<close>

definition seq :: "py_exn + 'a \<Rightarrow> ('a \<Rightarrow> py_exn + 'b) \<Rightarrow> py_exn + 'b" where
  "seq m f = (case m of Inl e \<Rightarrow> Inl e | Inr a \<Rightarrow> f a)"

text \<open>Truth value of an object: \<open>if x:\<close>, \<open>not x\<close>.\<close>

fun py_truthy :: "json \<Rightarrow> bool" where
  "py_truthy JNull = False"
| "py_truthy (JBool b) = b"
| "py_truthy (JInt i) = (i \<noteq> 0)"
| "py_truthy (JFloat (Finite s m e)) = (m \<noteq> 0)"
| "py_truthy (JFloat (Infinite s)) = True"
| "py_truthy (JFloat NaN) = True"
| "py_truthy (JStr s) = (s \<noteq> [])"
| "py_truthy (JArr xs) = (xs \<noteq> [])"
| "py_truthy (JObj kvs) = (kvs \<noteq> [])"

text \<open>\<open>d.get(key, default)\<close> on a dictionary.\<close>

definition dict_get :: "dict \<Rightarrow> pystr \<Rightarrow> json \<Rightarrow> json" where
  "dict_get d k dflt = (case map_of d k of None \<Rightarrow> dflt | Some v \<Rightarrow> v)"

text \<open>
  \<open>x.get(key, default)\<close> on any value: only a dictionary has the method, every other
  JSON value raises \<open>AttributeError\<close>.
\<close>

fun py_get :: "json \<Rightarrow> pystr \<Rightarrow> json \<Rightarrow> py_exn + json" where
  "py_get (JObj d) k dflt = Inr (dict_get d k dflt)"
| "py_get _ k dflt = Inl AttributeError"

text \<open>\<open>x[key]\<close> with a string key.\<close>

fun py_getitem :: "json \<Rightarrow> pystr \<Rightarrow> py_exn + json" where
  "py_getitem (JObj d) k = (case map_of d k of None \<Rightarrow> Inl KeyError | Some v \<Rightarrow> Inr v)"
| "py_getitem _ k = Inl TypeError"

text \<open>
  \<open>x[0]\<close>: the first element of a list, the first character of a string (as a string of
  length one); \<open>IndexError\<close> when empty; \<open>KeyError\<close> on a dictionary (the keys of a
  JSON object are strings, never \<open>0\<close>); \<open>TypeError\<close> on a value that is not subscriptable.
\<close>

fun py_index0 :: "json \<Rightarrow> py_exn + json" where
  "py_index0 (JArr []) = Inl IndexError"
| "py_index0 (JArr (x # xs)) = Inr x"
| "py_index0 (JStr []) = Inl IndexError"
| "py_index0 (JStr (c # cs)) = Inr (JStr [c])"
| "py_index0 (JObj d) = Inl KeyError"
| "py_index0 _ = Inl TypeError"

text \<open>
  The elements that \<open>for ... in x[:3]\<close> iterates over: the first three elements of a
  list, the first three characters of a string. A dictionary cannot be sliced
  (\<open>TypeError\<close>: a slice is unhashable; from Python 3.12 on it is a \<open>KeyError\<close>), the
  other values are not subscriptable.
\<close>

fun py_slice3 :: "json \<Rightarrow> py_exn + json list" where
  "py_slice3 (JArr xs) = Inr (take 3 xs)"
| "py_slice3 (JStr s) = Inr (map (\<lambda>c. JStr [c]) (take 3 s))"
| "py_slice3 _ = Inl TypeError"

text \<open>Decimal digits of an integer: \<open>str(n)\<close>.\<close>

fun str_nat :: "nat \<Rightarrow> pystr" where
  "str_nat n = (if n < 10 then [48 + n] else str_nat (n div 10) @ [48 + n mod 10])"

declare str_nat.simps [simp del]

definition str_int :: "int \<Rightarrow> pystr" where
  "str_int i = (if i < 0 then 45 # str_nat (nat (- i)) else str_nat (nat i))"

text \<open>
  A replacement field \<open>{x}\<close> of an f-string is \<open>format(x, '')\<close>, that is \<open>str(x)\<close>: a
  string is itself, an integer its decimal digits, \<open>None\<close>, \<open>True\<close> and \<open>False\<close> their
  names. How the interpreter prints floats, lists and dictionaries is the parameter
  \<open>fmt\<close>; no property below depends on it.
\<close>

fun py_format :: "(json \<Rightarrow> pystr) \<Rightarrow> json \<Rightarrow> pystr" where
  "py_format fmt (JStr s) = s"
| "py_format fmt (JInt i) = str_int i"
| "py_format fmt JNull = ascii ''None''"
| "py_format fmt (JBool b) = (if b then ascii ''True'' else ascii ''False'')"
| "py_format fmt v = fmt v"

text \<open>\<open>sep.join(xs)\<close>.\<close>

fun py_join :: "pystr \<Rightarrow> pystr list \<Rightarrow> pystr" where
  "py_join sep [] = []"
| "py_join sep [x] = x"
| "py_join sep (x # y # ys) = x @ sep @ py_join sep (y # ys)"

text \<open>
  \<open>c.isspace()\<close>: the white space that \<open>str.strip()\<close> removes (U+0009 to U+000D,
  U+001C to U+0020, U+0085, U+00A0, U+1680, U+2000 to U+200A, U+2028, U+2029, U+202F,
  U+205F, U+3000).
\<close>

definition py_isspace :: "nat \<Rightarrow> bool" where
  "py_isspace c \<longleftrightarrow>
     (0x9 \<le> c \<and> c \<le> 0xD) \<or> (0x1C \<le> c \<and> c \<le> 0x20) \<or> c = 0x85 \<or> c = 0xA0 \<or> c = 0x1680 \<or>
     (0x2000 \<le> c \<and> c \<le> 0x200A) \<or> c = 0x2028 \<or> c = 0x2029 \<or> c = 0x202F \<or> c = 0x205F \<or>
     c = 0x3000"

definition py_strip :: "pystr \<Rightarrow> pystr" where
  "py_strip s = rev (dropWhile py_isspace (rev (dropWhile py_isspace s)))"

text \<open>\<open>x in s\<close> for strings: \<open>x\<close> occurs in \<open>s\<close> as a contiguous run.\<close>

abbreviation py_contains :: "pystr \<Rightarrow> pystr \<Rightarrow> bool" where
  "py_contains s x \<equiv> sublist x s"

section \<open>String literals of the source\<close>

definition na :: pystr where
  "na = ascii ''N/A''"

definition nl :: pystr where
  "nl = [0xA]"

definition msg_invalid_city :: pystr where
  \<comment> \<open>line 176 / 210: 'please provide a valid city name'\<close>
  "msg_invalid_city = [0x8BF7, 0x63D0, 0x4F9B, 0x6709, 0x6548, 0x7684, 0x57CE, 0x5E02, 0x540D, 0x79F0]"

definition default_city :: pystr where
  \<comment> \<open>line 120: default of data.get(city): 'unknown'\<close>
  "default_city = [0x672A, 0x77E5]"

definition pre_cannot_get :: pystr where
  \<comment> \<open>line 124: 'cannot obtain '\<close>
  "pre_cannot_get = [0x65E0, 0x6CD5, 0x83B7, 0x53D6] @ ascii '' ''"

definition post_weather_info :: pystr where
  \<comment> \<open>line 124 / 220: ' weather information (genitive)'\<close>
  "post_weather_info = ascii '' '' @ [0x7684, 0x5929, 0x6C14, 0x4FE1, 0x606F]"

definition lbl_city :: pystr where
  \<comment> \<open>line 128: pin emoji, 'city: '\<close>
  "lbl_city = [0x1F4CD] @ ascii '' '' @ [0x57CE, 0x5E02] @ ascii '': ''"

definition lbl_temperature :: pystr where
  \<comment> \<open>line 129: thermometer emoji, 'temperature: '\<close>
  "lbl_temperature = [0x1F321, 0xFE0F] @ ascii '' '' @ [0x6E29, 0x5EA6] @ ascii '': ''"

definition unit_celsius :: pystr where
  \<comment> \<open>line 129 / 154: degree sign, C\<close>
  "unit_celsius = [0xB0] @ ascii ''C''"

definition lbl_humidity :: pystr where
  \<comment> \<open>line 130: droplet emoji, 'humidity: '\<close>
  "lbl_humidity = [0x1F4A7] @ ascii '' '' @ [0x6E7F, 0x5EA6] @ ascii '': ''"

definition lbl_wind :: pystr where
  \<comment> \<open>line 131: wind emoji, 'wind power: '\<close>
  "lbl_wind = [0x1F32C, 0xFE0F] @ ascii '' '' @ [0x98CE, 0x529B] @ ascii '': ''"

definition unit_level :: pystr where
  \<comment> \<open>line 131: 'level'\<close>
  "unit_level = [0x7EA7]"

definition lbl_weather :: pystr where
  \<comment> \<open>line 132: cloud emoji, 'weather: '\<close>
  "lbl_weather = [0x2601, 0xFE0F] @ ascii '' '' @ [0x5929, 0x6C14] @ ascii '': ''"

definition lbl_visibility :: pystr where
  \<comment> \<open>line 133: eye emoji, 'visibility: '\<close>
  "lbl_visibility = [0x1F441, 0xFE0F] @ ascii '' '' @ [0x80FD, 0x89C1, 0x5EA6] @ ascii '': ''"

definition unit_metre :: pystr where
  \<comment> \<open>line 133: 'metre'\<close>
  "unit_metre = [0x7C73]"

definition lbl_reporttime :: pystr where
  \<comment> \<open>line 134: chart emoji, 'report time: '\<close>
  "lbl_reporttime = [0x1F4CA] @ ascii '' '' @ [0x62A5, 0x544A, 0x65F6, 0x95F4] @ ascii '': ''"

definition forecast_header :: pystr where
  \<comment> \<open>line 144: newline, calendar emoji, 'weather forecast:'\<close>
  "forecast_header = [0xA, 0x1F4C5] @ ascii '' '' @ [0x5929, 0x6C14, 0x9884, 0x62A5] @ ascii '':''"

definition cast_week :: pystr where
  \<comment> \<open>line 154: ' (week'\<close>
  "cast_week = ascii '' ('' @ [0x5468]"

definition cast_day :: pystr where
  \<comment> \<open>line 154: '): ' and the sun emoji\<close>
  "cast_day = ascii ''): '' @ [0x2600, 0xFE0F]"

definition cast_night :: pystr where
  \<comment> \<open>line 154: degree C, slash, moon emoji\<close>
  "cast_night = [0xB0] @ ascii ''C / '' @ [0x1F319]"

definition log_query_weather :: pystr where
  \<comment> \<open>line 178: 'querying city weather: '\<close>
  "log_query_weather = [0x67E5, 0x8BE2, 0x57CE, 0x5E02, 0x5929, 0x6C14] @ ascii '': ''"

definition pre_failure :: pystr where
  \<comment> \<open>line 184 / 220: cross mark, 'cannot obtain '\<close>
  "pre_failure = [0x274C] @ ascii '' '' @ [0x65E0, 0x6CD5, 0x83B7, 0x53D6] @ ascii '' ''"

definition post_failure_causes :: pystr where
  \<comment> \<open>line 184: weather information, then the possible causes: wrong city name, invalid API key, network problem\<close>
  "post_failure_causes = ascii '' '' @ [0x7684, 0x5929, 0x6C14, 0x4FE1, 0x606F, 0xA, 0x53EF, 0x80FD, 0x7684, 0x539F, 0x56E0] @ ascii '':'' @ [0xA] @ ascii ''- '' @ [0x57CE, 0x5E02, 0x540D, 0x79F0, 0x4E0D, 0x6B63, 0x786E, 0xA] @ ascii ''- API Key '' @ [0x65E0, 0x6548, 0xA] @ ascii ''- '' @ [0x7F51, 0x7EDC, 0x8FDE, 0x63A5, 0x95EE, 0x9898]"

definition log_success :: pystr where
  \<comment> \<open>line 189 / 225: 'obtained '\<close>
  "log_success = [0x6210, 0x529F, 0x83B7, 0x53D6] @ ascii '' ''"

definition log_success_weather :: pystr where
  \<comment> \<open>line 189: ' weather information'\<close>
  "log_success_weather = ascii '' '' @ [0x5929, 0x6C14, 0x4FE1, 0x606F]"

definition log_query_forecast :: pystr where
  \<comment> \<open>line 214: 'querying city weather forecast: '\<close>
  "log_query_forecast = [0x67E5, 0x8BE2, 0x57CE, 0x5E02, 0x5929, 0x6C14, 0x9884, 0x62A5] @ ascii '': ''"

definition log_days :: pystr where
  \<comment> \<open>line 214: 'days'\<close>
  "log_days = [0x5929]"

definition log_success_forecast :: pystr where
  \<comment> \<open>line 225: ' weather forecast'\<close>
  "log_success_forecast = ascii '' '' @ [0x5929, 0x6C14, 0x9884, 0x62A5]"

definition log_city_not_found :: pystr where
  \<comment> \<open>line 79: 'cannot find city: '\<close>
  "log_city_not_found = [0x65E0, 0x6CD5, 0x627E, 0x5230, 0x57CE, 0x5E02] @ ascii '': ''"

definition log_request_failed :: pystr where
  \<comment> \<open>line 103: 'request to the Amap API failed: '\<close>
  "log_request_failed = [0x8BF7, 0x6C42, 0x9AD8, 0x5FB7] @ ascii '' API '' @ [0x5931, 0x8D25] @ ascii '': ''"

definition log_fetch_error :: pystr where
  \<comment> \<open>line 106: 'error while fetching weather information: '\<close>
  "log_fetch_error = [0x83B7, 0x53D6, 0x5929, 0x6C14, 0x4FE1, 0x606F, 0x65F6, 0x53D1, 0x751F, 0x9519, 0x8BEF] @ ascii '': ''"

definition k_city :: pystr where "k_city = ascii ''city''"
definition k_lives :: pystr where "k_lives = ascii ''lives''"
definition k_forecasts :: pystr where "k_forecasts = ascii ''forecasts''"
definition k_casts :: pystr where "k_casts = ascii ''casts''"
definition k_temperature :: pystr where "k_temperature = ascii ''temperature''"
definition k_humidity :: pystr where "k_humidity = ascii ''humidity''"
definition k_windpower :: pystr where "k_windpower = ascii ''windpower''"
definition k_winddirection :: pystr where "k_winddirection = ascii ''winddirection''"
definition k_weather :: pystr where "k_weather = ascii ''weather''"
definition k_visibility :: pystr where "k_visibility = ascii ''visibility''"
definition k_reporttime :: pystr where "k_reporttime = ascii ''reporttime''"
definition k_date :: pystr where "k_date = ascii ''date''"
definition k_week :: pystr where "k_week = ascii ''week''"
definition k_dayweather :: pystr where "k_dayweather = ascii ''dayweather''"
definition k_nightweather :: pystr where "k_nightweather = ascii ''nightweather''"
definition k_daytemp :: pystr where "k_daytemp = ascii ''daytemp''"
definition k_nighttemp :: pystr where "k_nighttemp = ascii ''nighttemp''"
definition k_status :: pystr where "k_status = ascii ''status''"
definition k_geocodes :: pystr where "k_geocodes = ascii ''geocodes''"
definition k_adcode :: pystr where "k_adcode = ascii ''adcode''"
definition k_key :: pystr where "k_key = ascii ''key''"
definition k_address :: pystr where "k_address = ascii ''address''"
definition k_extensions :: pystr where "k_extensions = ascii ''extensions''"

section \<open>Formatting a report: \<open>_format_weather_result\<close>\<close>

text \<open>
  Lines 127 to 135: the list literal bound to \<open>result\<close>. Each \<open>live.get\<close> raises when
  \<open>live\<close> is not a dictionary.
\<close>

definition live_result :: "(json \<Rightarrow> pystr) \<Rightarrow> json \<Rightarrow> json \<Rightarrow> py_exn + pystr list" where
  "live_result fmt city live =
     seq (py_get live k_temperature (JStr na)) (\<lambda>temperature.
     seq (py_get live k_humidity (JStr na)) (\<lambda>humidity.
     seq (py_get live k_windpower (JStr na)) (\<lambda>windpower.
     seq (py_get live k_winddirection (JStr [])) (\<lambda>winddirection.
     seq (py_get live k_weather (JStr na)) (\<lambda>weather.
     seq (py_get live k_visibility (JStr na)) (\<lambda>visibility.
     seq (py_get live k_reporttime (JStr na)) (\<lambda>reporttime.
     Inr [lbl_city @ py_format fmt city,
          lbl_temperature @ py_format fmt temperature @ unit_celsius,
          lbl_humidity @ py_format fmt humidity @ ascii ''%'',
          lbl_wind @ py_format fmt windpower @ ascii '' '' @ py_format fmt winddirection
            @ unit_level,
          lbl_weather @ py_format fmt weather,
          lbl_visibility @ py_format fmt visibility @ unit_metre,
          lbl_reporttime @ py_format fmt reporttime])))))))"

text \<open>Lines 146 to 155: the body of the loop, the line of one forecast day.\<close>

definition cast_line :: "(json \<Rightarrow> pystr) \<Rightarrow> json \<Rightarrow> py_exn + pystr" where
  "cast_line fmt cast =
     seq (py_get cast k_date (JStr [])) (\<lambda>date.
     seq (py_get cast k_week (JStr [])) (\<lambda>week.
     seq (py_get cast k_dayweather (JStr [])) (\<lambda>day_weather.
     seq (py_get cast k_nightweather (JStr [])) (\<lambda>night_weather.
     seq (py_get cast k_daytemp (JStr [])) (\<lambda>day_temp.
     seq (py_get cast k_nighttemp (JStr [])) (\<lambda>night_temp.
     Inr (ascii ''  '' @ py_format fmt date @ cast_week @ py_format fmt week @ cast_day
            @ py_format fmt day_weather @ ascii '' '' @ py_format fmt day_temp @ cast_night
            @ py_format fmt night_weather @ ascii '' '' @ py_format fmt night_temp
            @ unit_celsius)))))))"

text \<open>Line 145: the loop over \<open>casts[:3]\<close>, appending one line to \<open>result\<close> per turn.\<close>

fun append_casts :: "(json \<Rightarrow> pystr) \<Rightarrow> json list \<Rightarrow> pystr list \<Rightarrow> py_exn + pystr list" where
  "append_casts fmt [] result = Inr result"
| "append_casts fmt (cast # casts) result =
     seq (cast_line fmt cast) (\<lambda>line. append_casts fmt casts (result @ [line]))"

text \<open>Lines 138 to 155: what the forecast branch makes of \<open>result\<close>.\<close>

definition forecast_section ::
  "(json \<Rightarrow> pystr) \<Rightarrow> dict \<Rightarrow> pystr list \<Rightarrow> py_exn + pystr list" where
  "forecast_section fmt data result =
     (let forecasts = dict_get data k_forecasts (JArr []) in
      if py_truthy forecasts then
        seq (py_index0 forecasts) (\<lambda>forecast_data.
        seq (py_get forecast_data k_casts (JArr [])) (\<lambda>casts.
        if py_truthy casts then
          seq (py_slice3 casts) (\<lambda>first3.
          append_casts fmt first3 (result @ [forecast_header]))
        else Inr result))
      else Inr result)"

text \<open>The list \<open>result\<close> as it is joined on line 157 (reached when \<open>lives\<close> is true).\<close>

definition result_lines :: "(json \<Rightarrow> pystr) \<Rightarrow> dict \<Rightarrow> bool \<Rightarrow> py_exn + pystr list" where
  "result_lines fmt data include_forecast =
     seq (py_index0 (dict_get data k_lives (JArr []))) (\<lambda>live.
     seq (live_result fmt (dict_get data k_city (JStr default_city)) live) (\<lambda>result.
     if include_forecast then forecast_section fmt data result else Inr result))"

definition format_weather_result :: "(json \<Rightarrow> pystr) \<Rightarrow> dict \<Rightarrow> bool \<Rightarrow> py_exn + pystr" where
  "format_weather_result fmt data include_forecast =
     (let city = dict_get data k_city (JStr default_city);
          lives = dict_get data k_lives (JArr [])
      in if \<not> py_truthy lives then
           Inr (pre_cannot_get @ py_format fmt city @ post_weather_info)
         else
           seq (result_lines fmt data include_forecast) (\<lambda>result.
           Inr (py_join nl result)))"

section \<open>Effects: network requests and log lines\<close>

text \<open>
  The plugin configuration (lines 31 to 51).
\<close>

record WeatherConfig =
  API_KEY :: pystr
  API_BASE_URL :: pystr
  TIMEOUT :: int

text \<open>
  What a call does besides returning: the requests it sends and the lines it logs, in
  order. An error line carries the exception it prints.
\<close>

datatype event =
    HttpGet pystr dict
  | LogInfo pystr
  | LogWarning pystr
  | LogError pystr py_exn

text \<open>
  The HTTP client is outside the program. \<open>net timeout url params\<close> is the outcome of
  \<open>client.get(url, params=params)\<close>, \<open>raise_for_status()\<close> and \<open>json()\<close> together: the
  decoded body, or the exception that one of the three raised.
\<close>

type_synonym transport = "int \<Rightarrow> pystr \<Rightarrow> dict \<Rightarrow> py_exn + json"

text \<open>A computation with effects: its outcome and the events it produced.\<close>

type_synonym 'a io = "(py_exn + 'a) \<times> event list"

definition ret :: "'a \<Rightarrow> 'a io" where
  "ret a = (Inr a, [])"

definition pure :: "py_exn + 'a \<Rightarrow> 'a io" where
  "pure r = (r, [])"

definition emit :: "event \<Rightarrow> unit io" where
  "emit ev = (Inr (), [ev])"

definition bind_io :: "'a io \<Rightarrow> ('a \<Rightarrow> 'b io) \<Rightarrow> 'b io" where
  "bind_io m f =
     (case m of
        (Inl e, evs) \<Rightarrow> (Inl e, evs)
      | (Inr a, evs) \<Rightarrow> (case f a of (r, evs') \<Rightarrow> (r, evs @ evs')))"

definition http_get :: "transport \<Rightarrow> WeatherConfig \<Rightarrow> pystr \<Rightarrow> dict \<Rightarrow> json io" where
  "http_get net cfg url params = (net (TIMEOUT cfg) url params, [HttpGet url params])"

section \<open>Fetching: \<open>_get_weather_from_amap\<close>\<close>

text \<open>
  Lines 78 and 93: \<open>data.get("status") != "1" or not data.get(key)\<close>. The second operand
  is evaluated only when the first is false.
\<close>

definition no_result :: "json \<Rightarrow> pystr \<Rightarrow> py_exn + bool" where
  "no_result data key =
     seq (py_get data k_status JNull) (\<lambda>status.
     if status \<noteq> JStr (ascii ''1'') then Inr True
     else seq (py_get data key JNull) (\<lambda>v. Inr (\<not> py_truthy v)))"

text \<open>Line 82: \<open>geo_data["geocodes"][0].get("adcode", "")\<close>.\<close>

definition first_adcode :: "json \<Rightarrow> py_exn + json" where
  "first_adcode geo_data =
     seq (py_getitem geo_data k_geocodes) (\<lambda>geocodes.
     seq (py_index0 geocodes) (\<lambda>geocode.
     py_get geocode k_adcode (JStr [])))"

text \<open>Lines 68 to 100: the body of the \<open>try\<close>.\<close>

definition amap_try :: "WeatherConfig \<Rightarrow> transport \<Rightarrow> pystr \<Rightarrow> dict option io" where
  "amap_try cfg net city =
     bind_io (http_get net cfg (API_BASE_URL cfg @ ascii ''/geocode/geo'')
                [(k_key, JStr (API_KEY cfg)), (k_address, JStr city)]) (\<lambda>geo_data.
     bind_io (pure (no_result geo_data k_geocodes)) (\<lambda>not_found.
     if not_found then
       bind_io (emit (LogWarning (log_city_not_found @ city))) (\<lambda>_. ret None)
     else
       bind_io (pure (first_adcode geo_data)) (\<lambda>city_code.
       bind_io (http_get net cfg (API_BASE_URL cfg @ ascii ''/weather/weatherInfo'')
                  [(k_key, JStr (API_KEY cfg)), (k_city, city_code),
                   (k_extensions, JStr (ascii ''all''))]) (\<lambda>weather_data.
       bind_io (pure (no_result weather_data k_lives)) (\<lambda>no_lives.
       if no_lives then ret None
       else
         bind_io (pure (py_get weather_data k_lives (JArr []))) (\<lambda>lives.
         bind_io (pure (py_get weather_data k_forecasts (JArr []))) (\<lambda>forecasts.
         ret (Some [(k_city, JStr city), (k_lives, lives), (k_forecasts, forecasts)]))))))))"

text \<open>
  Lines 102 to 107: both handlers log the exception and return \<open>None\<close>; nothing raised
  inside the \<open>try\<close> leaves the function.
\<close>

definition get_weather_from_amap ::
  "WeatherConfig \<Rightarrow> transport \<Rightarrow> pystr \<Rightarrow> dict option \<times> event list" where
  "get_weather_from_amap cfg net city =
     (case amap_try cfg net city of
        (Inr r, evs) \<Rightarrow> (r, evs)
      | (Inl e, evs) \<Rightarrow>
          (None, evs @ [LogError (if e = RequestError then log_request_failed
                                  else log_fetch_error) e]))"

section \<open>The two actions: \<open>query_weather\<close> and \<open>query_weather_forecast\<close>\<close>

text \<open>Lines 175 and 209: \<open>not city or not city.strip()\<close>.\<close>

definition blank :: "pystr \<Rightarrow> bool" where
  "blank city \<longleftrightarrow> city = [] \<or> py_strip city = []"

text \<open>
  Lines 183 and 219: \<open>not weather_data\<close>, true of \<open>None\<close> and of an empty dictionary.
  Below, \<open>the weather_data\<close> is read only where this test has failed, so where
  \<open>weather_data\<close> is a dictionary.
\<close>

fun no_data :: "dict option \<Rightarrow> bool" where
  "no_data None = True"
| "no_data (Some d) = (d = [])"

definition query_weather ::
  "WeatherConfig \<Rightarrow> transport \<Rightarrow> (json \<Rightarrow> pystr) \<Rightarrow> pystr \<Rightarrow> pystr io" where
  "query_weather cfg net fmt city =
     (if blank city then ret msg_invalid_city
      else
        bind_io (emit (LogInfo (log_query_weather @ city))) (\<lambda>_.
        bind_io (case get_weather_from_amap cfg net (py_strip city) of
                   (r, evs) \<Rightarrow> (Inr r, evs)) (\<lambda>weather_data.
        if no_data weather_data then ret (pre_failure @ city @ post_failure_causes)
        else
          bind_io (pure (format_weather_result fmt (the weather_data) False)) (\<lambda>result.
          bind_io (emit (LogInfo (log_success @ city @ log_success_weather))) (\<lambda>_.
          ret result)))))"

text \<open>Line 212: \<open>min(max(days, 1), 7)\<close>.\<close>

definition clamp_days :: "int \<Rightarrow> int" where
  "clamp_days days = min (max days 1) 7"

definition query_weather_forecast ::
  "WeatherConfig \<Rightarrow> transport \<Rightarrow> (json \<Rightarrow> pystr) \<Rightarrow> pystr \<Rightarrow> int \<Rightarrow> pystr io" where
  "query_weather_forecast cfg net fmt city days0 =
     (if blank city then ret msg_invalid_city
      else
        (let days = clamp_days days0 in
         bind_io (emit (LogInfo (log_query_forecast @ city @ ascii '', '' @ str_int days
                                 @ log_days))) (\<lambda>_.
         bind_io (case get_weather_from_amap cfg net (py_strip city) of
                    (r, evs) \<Rightarrow> (Inr r, evs)) (\<lambda>weather_data.
         if no_data weather_data then ret (pre_failure @ city @ post_weather_info)
         else
           bind_io (pure (format_weather_result fmt (the weather_data) True)) (\<lambda>result.
           bind_io (emit (LogInfo (log_success @ city @ log_success_forecast))) (\<lambda>_.
           ret result))))))"

section \<open>Sample data\<close>

text \<open>
  The report of \<open>test_format_result_structure\<close> (the city is U+6D4B U+8BD5 U+57CE
  U+5E02, the wind direction U+5317 "north", the weather U+6674 "clear").
\<close>

definition test_live :: dict where
  "test_live =
     [(k_temperature, JStr (ascii ''25'')), (k_humidity, JStr (ascii ''50'')),
      (k_windpower, JStr (ascii ''3'')), (k_winddirection, JStr [0x5317]),
      (k_weather, JStr [0x6674]), (k_visibility, JStr (ascii ''10'')),
      (k_reporttime, JStr (ascii ''2026-01-29 12:00:00''))]"

definition test_city :: pystr where
  "test_city = [0x6D4B, 0x8BD5, 0x57CE, 0x5E02]"

definition test_report :: dict where
  "test_report = [(k_city, JStr test_city), (k_lives, JArr [JObj test_live]),
                  (k_forecasts, JArr [])]"

text \<open>A report whose only live record has no field at all.\<close>

definition bare_report :: dict where
  "bare_report = [(k_city, JStr test_city), (k_lives, JArr [JObj []])]"

text \<open>Forecast days as the provider sends them, and a report with four of them.\<close>

definition day :: "nat \<Rightarrow> dict" where
  "day n =
     [(k_date, JStr (ascii ''2026-01-3'' @ [48 + n])), (k_week, JStr [48 + n]),
      (k_dayweather, JStr [0x6674]), (k_nightweather, JStr [0x9634]),
      (k_daytemp, JStr (ascii ''1'' @ [48 + n])), (k_nighttemp, JStr [48 + n])]"

definition forecast_report :: dict where
  "forecast_report =
     [(k_city, JStr test_city), (k_lives, JArr [JObj test_live]),
      (k_forecasts, JArr [JObj [(k_casts, JArr [JObj (day 1), JObj (day 2), JObj (day 3),
                                               JObj (day 4)])]])]"

text \<open>A report with two forecast groups.\<close>

definition two_groups :: dict where
  "two_groups =
     [(k_city, JStr test_city), (k_lives, JArr [JObj test_live]),
      (k_forecasts, JArr [JObj [(k_casts, JArr [JObj (day 1)])],
                          JObj [(k_casts, JArr [JObj (day 2), JObj (day 3)])]])]"

text \<open>
  A configuration, provider answers and transports: one that answers the geocode request
  with \<open>geo\<close> and any other request with \<open>weather\<close>.
\<close>

definition test_config :: WeatherConfig where
  "test_config = \<lparr>API_KEY = ascii ''secret'', API_BASE_URL = ascii ''https://restapi.amap.com/v3'',
                   TIMEOUT = 10\<rparr>"

definition geo_found :: json where
  "geo_found = JObj [(k_status, JStr (ascii ''1'')),
                     (k_geocodes, JArr [JObj [(k_adcode, JStr (ascii ''110000''))]])]"

definition geo_unknown :: json where
  "geo_unknown = JObj [(k_status, JStr (ascii ''1'')), (k_geocodes, JArr [])]"

definition four_days :: json where
  "four_days = JArr [JObj [(k_casts, JArr [JObj (day 1), JObj (day 2), JObj (day 3),
                                          JObj (day 4)])]]"

definition answering :: "json \<Rightarrow> json \<Rightarrow> transport" where
  "answering geo weather timeout url params =
     (if url = ascii ''https://restapi.amap.com/v3/geocode/geo'' then Inr geo else Inr weather)"

definition net_ok :: transport where
  "net_ok = answering geo_found
     (JObj [(k_status, JStr (ascii ''1'')), (k_lives, JArr [JObj test_live]),
            (k_forecasts, four_days)])"

definition net_no_lives :: transport where
  "net_no_lives = answering geo_found
     (JObj [(k_status, JStr (ascii ''1'')), (k_lives, JArr []), (k_forecasts, four_days)])"

definition net_unknown_city :: transport where
  "net_unknown_city = answering geo_unknown JNull"

text \<open>A transport whose every request fails with a network error.\<close>

definition net_down :: transport where
  "net_down timeout url params = Inl RequestError"

section \<open>Basic facts\<close>

lemmas key_defs =
  k_city_def k_lives_def k_forecasts_def k_casts_def k_temperature_def k_humidity_def
  k_windpower_def k_winddirection_def k_weather_def k_visibility_def k_reporttime_def
  k_date_def k_week_def k_dayweather_def k_nightweather_def k_daytemp_def k_nighttemp_def
  k_status_def k_geocodes_def k_adcode_def k_key_def k_address_def k_extensions_def

lemma seq_Inr [simp]: "seq (Inr a) f = f a"
  by (simp add: seq_def)

lemma seq_Inl [simp]: "seq (Inl e) f = Inl e"
  by (simp add: seq_def)

lemma seq_eq_Inr: "seq m f = Inr b \<longleftrightarrow> (\<exists>a. m = Inr a \<and> f a = Inr b)"
  by (cases m) simp_all

lemma dict_get_absent: "map_of d k = None \<Longrightarrow> dict_get d k v = v"
  by (simp add: dict_get_def)

lemma py_strip_Nil_iff: "py_strip s = [] \<longleftrightarrow> (\<forall>c\<in>set s. py_isspace c)"
proof
  assume "py_strip s = []"
  then have all: "\<forall>c\<in>set (dropWhile py_isspace s). py_isspace c"
    by (simp add: py_strip_def dropWhile_eq_Nil_conv)
  have "dropWhile py_isspace s = []"
  proof (rule ccontr)
    assume ne: "dropWhile py_isspace s \<noteq> []"
    then have "\<not> py_isspace (hd (dropWhile py_isspace s))"
      by (rule hd_dropWhile)
    moreover have "hd (dropWhile py_isspace s) \<in> set (dropWhile py_isspace s)"
      using ne by simp
    ultimately show False using all by blast
  qed
  then show "\<forall>c\<in>set s. py_isspace c"
    by (simp add: dropWhile_eq_Nil_conv)
next
  assume "\<forall>c\<in>set s. py_isspace c"
  then show "py_strip s = []"
    by (auto simp: py_strip_def dropWhile_eq_Nil_conv dest: set_dropWhileD)
qed

lemma blank_iff: "blank city \<longleftrightarrow> (\<forall>c\<in>set city. py_isspace c)"
  by (auto simp: blank_def py_strip_Nil_iff)

lemma keys_distinct:
  "k_city \<noteq> k_lives" "k_city \<noteq> k_forecasts" "k_lives \<noteq> k_forecasts"
  "k_lives \<noteq> k_city" "k_forecasts \<noteq> k_city" "k_forecasts \<noteq> k_lives"
  by (simp_all add: k_city_def k_lives_def k_forecasts_def ascii_def)

section \<open>The shape of the result list\<close>

lemma live_result_JObj:
  "live_result fmt city (JObj live) =
     Inr [lbl_city @ py_format fmt city,
          lbl_temperature @ py_format fmt (dict_get live k_temperature (JStr na)) @ unit_celsius,
          lbl_humidity @ py_format fmt (dict_get live k_humidity (JStr na)) @ ascii ''%'',
          lbl_wind @ py_format fmt (dict_get live k_windpower (JStr na)) @ ascii '' ''
            @ py_format fmt (dict_get live k_winddirection (JStr [])) @ unit_level,
          lbl_weather @ py_format fmt (dict_get live k_weather (JStr na)),
          lbl_visibility @ py_format fmt (dict_get live k_visibility (JStr na)) @ unit_metre,
          lbl_reporttime @ py_format fmt (dict_get live k_reporttime (JStr na))]"
  by (simp add: live_result_def)

lemma result_lines_live:
  assumes "dict_get data k_lives (JArr []) = JArr (JObj live # others)"
  shows "result_lines fmt data False
           = live_result fmt (dict_get data k_city (JStr default_city)) (JObj live)"
    and "result_lines fmt data True
           = seq (live_result fmt (dict_get data k_city (JStr default_city)) (JObj live))
               (forecast_section fmt data)"
  using assms by (simp_all add: result_lines_def live_result_JObj)

lemma format_truthy:
  assumes "py_truthy (dict_get data k_lives (JArr []))"
  shows "format_weather_result fmt data inc
           = seq (result_lines fmt data inc) (\<lambda>result. Inr (py_join nl result))"
  using assms by (simp add: format_weather_result_def)

lemma append_casts_shape:
  "append_casts fmt cs r = Inr r' \<Longrightarrow> \<exists>fl. r' = r @ fl \<and> length fl = length cs"
proof (induction cs arbitrary: r)
  case Nil
  then show ?case by simp
next
  case (Cons c cs)
  from Cons.prems obtain line where l: "cast_line fmt c = Inr line"
    and rest: "append_casts fmt cs (r @ [line]) = Inr r'"
    by (auto simp: seq_eq_Inr)
  from Cons.IH [OF rest] obtain fl where "r' = (r @ [line]) @ fl" "length fl = length cs"
    by blast
  then have "r' = r @ (line # fl) \<and> length (line # fl) = length (c # cs)"
    by simp
  then show ?case by blast
qed

lemma py_slice3_shape:
  assumes "py_slice3 v = Inr xs" "py_truthy v"
  shows "xs \<noteq> [] \<and> length xs \<le> 3"
  using assms by (cases v) auto

lemma forecast_section_shape:
  assumes "forecast_section fmt data r = Inr r'"
  shows "r' = r \<or> (\<exists>fl. r' = r @ forecast_header # fl \<and> fl \<noteq> [] \<and> length fl \<le> 3)"
proof (cases "py_truthy (dict_get data k_forecasts (JArr []))")
  case False
  with assms show ?thesis by (simp add: forecast_section_def)
next
  case True
  with assms obtain fd casts where fd: "py_index0 (dict_get data k_forecasts (JArr [])) = Inr fd"
    and casts: "py_get fd k_casts (JArr []) = Inr casts"
    and rest: "(if py_truthy casts then
                  seq (py_slice3 casts) (\<lambda>first3. append_casts fmt first3 (r @ [forecast_header]))
                else Inr r) = Inr r'"
    by (auto simp: forecast_section_def seq_eq_Inr)
  show ?thesis
  proof (cases "py_truthy casts")
    case False
    with rest show ?thesis by simp
  next
    case True
    with rest obtain first3 where s: "py_slice3 casts = Inr first3"
      and a: "append_casts fmt first3 (r @ [forecast_header]) = Inr r'"
      by (auto simp: seq_eq_Inr)
    from append_casts_shape [OF a] obtain fl where
      "r' = (r @ [forecast_header]) @ fl" "length fl = length first3"
      by blast
    moreover from py_slice3_shape [OF s True] have "first3 \<noteq> [] \<and> length first3 \<le> 3" .
    ultimately have "r' = r @ forecast_header # fl \<and> fl \<noteq> [] \<and> length fl \<le> 3"
      by auto
    then show ?thesis by blast
  qed
qed

lemma cast_line_JObj:
  "cast_line fmt (JObj c) =
     Inr (ascii ''  '' @ py_format fmt (dict_get c k_date (JStr [])) @ cast_week
          @ py_format fmt (dict_get c k_week (JStr [])) @ cast_day
          @ py_format fmt (dict_get c k_dayweather (JStr [])) @ ascii '' ''
          @ py_format fmt (dict_get c k_daytemp (JStr [])) @ cast_night
          @ py_format fmt (dict_get c k_nightweather (JStr [])) @ ascii '' ''
          @ py_format fmt (dict_get c k_nighttemp (JStr [])) @ unit_celsius)"
  by (simp add: cast_line_def)

lemma forecast_section_falsy:
  "\<not> py_truthy (dict_get data k_forecasts (JArr [])) \<Longrightarrow> forecast_section fmt data r = Inr r"
  by (simp add: forecast_section_def)

lemma forecast_section_first:
  assumes "dict_get data k_forecasts (JArr []) = JArr (g # groups)"
  shows "forecast_section fmt data r =
           seq (py_get g k_casts (JArr [])) (\<lambda>casts.
             if py_truthy casts then
               seq (py_slice3 casts) (\<lambda>first3. append_casts fmt first3 (r @ [forecast_header]))
             else Inr r)"
  using assms by (simp add: forecast_section_def)

lemma dict_get_set_forecasts:
  "dict_get ((k_forecasts, v) # data) k_forecasts d = v"
  "dict_get ((k_forecasts, v) # data) k_lives d = dict_get data k_lives d"
  "dict_get ((k_forecasts, v) # data) k_city d = dict_get data k_city d"
  by (simp_all add: dict_get_def keys_distinct)

lemma py_get_Inr: "py_get g k d = Inr x \<Longrightarrow> \<exists>fc. g = JObj fc \<and> x = dict_get fc k d"
  by (cases g) auto

lemma py_index0_JObj: "py_index0 v = Inr (JObj d) \<Longrightarrow> \<exists>rest. v = JArr (JObj d # rest)"
  by (cases v rule: py_index0.cases) auto

lemma slice_of_list:
  assumes "py_slice3 casts = Inr first3" "py_truthy casts" "append_casts fmt first3 r = Inr r'"
  shows "\<exists>xs. casts = JArr xs \<and> xs \<noteq> []"
proof (cases casts)
  case (JStr s)
  with assms(2) obtain c cs where "s = c # cs" by (cases s) auto
  with JStr assms(1) obtain rest where "first3 = JStr [c] # rest" by auto
  with assms(3) show ?thesis by (simp add: cast_line_def)
qed (use assms in auto)

lemma two_groups_differ:
  "format_weather_result (\<lambda>_. []) two_groups True
     \<noteq> format_weather_result (\<lambda>_. []) two_groups False"
  by (simp add: format_weather_result_def result_lines_def live_result_def two_groups_def
      forecast_section_def cast_line_def day_def test_live_def dict_get_def key_defs ascii_def
      nl_def lbl_city_def test_city_def)

lemma two_groups_on:
  "\<exists>s. format_weather_result (\<lambda>_. []) two_groups True = Inr s"
  by (simp add: format_weather_result_def result_lines_def live_result_def two_groups_def
      forecast_section_def cast_line_def day_def test_live_def dict_get_def key_defs ascii_def)

section \<open>Facts about fetching and the two actions\<close>

lemma bind_io_Inr: "bind_io (Inr a, e1) f = (case f a of (r, e2) \<Rightarrow> (r, e1 @ e2))"
  by (simp add: bind_io_def)

lemma bind_io_Inl: "bind_io (Inl e, e1) f = (Inl e, e1)"
  by (simp add: bind_io_def)

lemma bind_io_eq_Inr:
  "bind_io m f = (Inr b, evs) \<longleftrightarrow>
     (\<exists>a e1 e2. m = (Inr a, e1) \<and> f a = (Inr b, e2) \<and> evs = e1 @ e2)"
proof (cases m)
  case (Pair r e1)
  then show ?thesis
    by (cases r; cases "f (projr r)") (auto simp: bind_io_Inr bind_io_Inl)
qed

lemma no_result_False:
  assumes "no_result data key = Inr False"
  shows "\<exists>w v. data = JObj w \<and> map_of w k_status = Some (JStr (ascii ''1''))
           \<and> map_of w key = Some v \<and> py_truthy v"
proof -
  from assms obtain w where w: "data = JObj w"
    by (cases data) (auto simp: no_result_def)
  from assms w have s: "dict_get w k_status JNull = JStr (ascii ''1'')"
    and t: "py_truthy (dict_get w key JNull)"
    by (auto simp: no_result_def split: if_splits)
  from s have "map_of w k_status = Some (JStr (ascii ''1''))"
    by (auto simp: dict_get_def split: option.splits)
  moreover from t obtain v where "map_of w key = Some v" "py_truthy v"
    by (auto simp: dict_get_def split: option.splits)
  ultimately show ?thesis using w by blast
qed

lemma amap_try_Some:
  assumes "amap_try cfg net city = (Inr (Some d), evs)"
  shows "\<exists>geo city_code w lives.
           net (TIMEOUT cfg) (API_BASE_URL cfg @ ascii ''/geocode/geo'')
             [(k_key, JStr (API_KEY cfg)), (k_address, JStr city)] = Inr geo
         \<and> first_adcode geo = Inr city_code
         \<and> net (TIMEOUT cfg) (API_BASE_URL cfg @ ascii ''/weather/weatherInfo'')
             [(k_key, JStr (API_KEY cfg)), (k_city, city_code),
              (k_extensions, JStr (ascii ''all''))] = Inr (JObj w)
         \<and> map_of w k_status = Some (JStr (ascii ''1''))
         \<and> map_of w k_lives = Some lives \<and> py_truthy lives
         \<and> d = [(k_city, JStr city), (k_lives, lives),
                  (k_forecasts, dict_get w k_forecasts (JArr []))]"
proof -
  from assms obtain geo e1 e2 where geo: "net (TIMEOUT cfg) (API_BASE_URL cfg @ ascii ''/geocode/geo'')
             [(k_key, JStr (API_KEY cfg)), (k_address, JStr city)] = Inr geo"
    and 1: "bind_io (pure (no_result geo k_geocodes)) (\<lambda>not_found.
     if not_found then
       bind_io (emit (LogWarning (log_city_not_found @ city))) (\<lambda>_. ret None)
     else
       bind_io (pure (first_adcode geo)) (\<lambda>city_code.
       bind_io (http_get net cfg (API_BASE_URL cfg @ ascii ''/weather/weatherInfo'')
                  [(k_key, JStr (API_KEY cfg)), (k_city, city_code),
                   (k_extensions, JStr (ascii ''all''))]) (\<lambda>weather_data.
       bind_io (pure (no_result weather_data k_lives)) (\<lambda>no_lives.
       if no_lives then ret None
       else
         bind_io (pure (py_get weather_data k_lives (JArr []))) (\<lambda>lives.
         bind_io (pure (py_get weather_data k_forecasts (JArr []))) (\<lambda>forecasts.
         ret (Some [(k_city, JStr city), (k_lives, lives), (k_forecasts, forecasts)]))))))) = (Inr (Some d), e2)"
    unfolding amap_try_def bind_io_eq_Inr http_get_def by auto
  from 1 obtain nf e3 where nf: "no_result geo k_geocodes = Inr nf"
    and 2: "(if nf then
       bind_io (emit (LogWarning (log_city_not_found @ city))) (\<lambda>_. ret None)
     else
       bind_io (pure (first_adcode geo)) (\<lambda>city_code.
       bind_io (http_get net cfg (API_BASE_URL cfg @ ascii ''/weather/weatherInfo'')
                  [(k_key, JStr (API_KEY cfg)), (k_city, city_code),
                   (k_extensions, JStr (ascii ''all''))]) (\<lambda>weather_data.
       bind_io (pure (no_result weather_data k_lives)) (\<lambda>no_lives.
       if no_lives then ret None
       else
         bind_io (pure (py_get weather_data k_lives (JArr []))) (\<lambda>lives.
         bind_io (pure (py_get weather_data k_forecasts (JArr []))) (\<lambda>forecasts.
         ret (Some [(k_city, JStr city), (k_lives, lives), (k_forecasts, forecasts)]))))))) = (Inr (Some d), e3)"
    unfolding bind_io_eq_Inr pure_def by auto
  have "\<not> nf"
    using 2 by (auto simp: bind_io_eq_Inr emit_def ret_def)
  with 2 obtain city_code wd e4 where cc: "first_adcode geo = Inr city_code"
    and wd: "net (TIMEOUT cfg) (API_BASE_URL cfg @ ascii ''/weather/weatherInfo'')
             [(k_key, JStr (API_KEY cfg)), (k_city, city_code),
              (k_extensions, JStr (ascii ''all''))] = Inr wd"
    and 3: "bind_io (pure (no_result wd k_lives)) (\<lambda>no_lives.
       if no_lives then ret None
       else
         bind_io (pure (py_get wd k_lives (JArr []))) (\<lambda>lives.
         bind_io (pure (py_get wd k_forecasts (JArr []))) (\<lambda>forecasts.
         ret (Some [(k_city, JStr city), (k_lives, lives), (k_forecasts, forecasts)])))) = (Inr (Some d), e4)"
    by (auto simp: bind_io_eq_Inr pure_def http_get_def)
  from 3 obtain nl' e5 where nl': "no_result wd k_lives = Inr nl'"
    and 4: "(if nl' then ret None
       else
         bind_io (pure (py_get wd k_lives (JArr []))) (\<lambda>lives.
         bind_io (pure (py_get wd k_forecasts (JArr []))) (\<lambda>forecasts.
         ret (Some [(k_city, JStr city), (k_lives, lives), (k_forecasts, forecasts)])))) = (Inr (Some d), e5)"
    unfolding bind_io_eq_Inr pure_def by auto
  have "\<not> nl'"
    using 4 by (auto simp: ret_def)
  with nl' have "no_result wd k_lives = Inr False" by simp
  from no_result_False [OF this] obtain w lives where w: "wd = JObj w"
    "map_of w k_status = Some (JStr (ascii ''1''))" "map_of w k_lives = Some lives" "py_truthy lives"
    by blast
  from 4 \<open>\<not> nl'\<close> w have "d = [(k_city, JStr city), (k_lives, lives),
                  (k_forecasts, dict_get w k_forecasts (JArr []))]"
    by (auto simp: bind_io_eq_Inr pure_def ret_def dict_get_def)
  with geo cc wd w show ?thesis by blast
qed

lemma fetch_Some:
  "get_weather_from_amap cfg net city = (Some d, evs) \<Longrightarrow> amap_try cfg net city = (Inr (Some d), evs)"
  by (auto simp: get_weather_from_amap_def split: prod.splits sum.splits)

lemma try_raises_None:
  "fst (amap_try cfg net city) = Inl e \<Longrightarrow> fst (get_weather_from_amap cfg net city) = None"
  by (cases "amap_try cfg net city") (simp add: get_weather_from_amap_def)

lemma fetch_ok:
  "get_weather_from_amap test_config net_ok test_city
     = (Some [(k_city, JStr test_city), (k_lives, JArr [JObj test_live]), (k_forecasts, four_days)],
        [HttpGet (ascii ''https://restapi.amap.com/v3/geocode/geo'')
           [(k_key, JStr (ascii ''secret'')), (k_address, JStr test_city)],
         HttpGet (ascii ''https://restapi.amap.com/v3/weather/weatherInfo'')
           [(k_key, JStr (ascii ''secret'')), (k_city, JStr (ascii ''110000'')),
            (k_extensions, JStr (ascii ''all''))]])"
  by (simp add: get_weather_from_amap_def amap_try_def bind_io_def http_get_def pure_def ret_def
      emit_def no_result_def first_adcode_def net_ok_def answering_def geo_found_def
      test_config_def dict_get_def key_defs ascii_def)


lemma fetch_no_lives:
  "get_weather_from_amap test_config net_no_lives test_city
     = (None,
        [HttpGet (ascii ''https://restapi.amap.com/v3/geocode/geo'')
           [(k_key, JStr (ascii ''secret'')), (k_address, JStr test_city)],
         HttpGet (ascii ''https://restapi.amap.com/v3/weather/weatherInfo'')
           [(k_key, JStr (ascii ''secret'')), (k_city, JStr (ascii ''110000'')),
            (k_extensions, JStr (ascii ''all''))]])"
  by (simp add: get_weather_from_amap_def amap_try_def bind_io_def http_get_def pure_def ret_def
      emit_def no_result_def first_adcode_def net_no_lives_def answering_def geo_found_def
      test_config_def dict_get_def key_defs ascii_def)

lemma fetch_unknown_city:
  "get_weather_from_amap test_config net_unknown_city test_city
     = (None,
        [HttpGet (ascii ''https://restapi.amap.com/v3/geocode/geo'')
           [(k_key, JStr (ascii ''secret'')), (k_address, JStr test_city)],
         LogWarning (log_city_not_found @ test_city)])"
  by (simp add: get_weather_from_amap_def amap_try_def bind_io_def http_get_def pure_def ret_def
      emit_def no_result_def first_adcode_def net_unknown_city_def answering_def geo_unknown_def
      test_config_def dict_get_def key_defs ascii_def)

lemma py_strip_sublist: "sublist (py_strip s) s"
proof -
  let ?t = "dropWhile py_isspace s"
  have "py_strip s @ rev (takeWhile py_isspace (rev ?t))
          = rev (takeWhile py_isspace (rev ?t) @ dropWhile py_isspace (rev ?t))"
    by (simp only: py_strip_def rev_append)
  also have "\<dots> = rev (rev ?t)"
    by (simp only: takeWhile_dropWhile_id)
  also have "\<dots> = ?t"
    by simp
  finally have "?t = py_strip s @ rev (takeWhile py_isspace (rev ?t))"
    by (rule sym)
  moreover have "s = takeWhile py_isspace s @ ?t"
    by simp
  ultimately have "s = takeWhile py_isspace s @ py_strip s @ rev (takeWhile py_isspace (rev ?t))"
    by simp
  then show ?thesis
    by (metis sublist_appendI)
qed

lemma query_weather_result:
  assumes "\<not> blank city"
  shows "fst (query_weather cfg net fmt city) =
           (let weather_data = fst (get_weather_from_amap cfg net (py_strip city)) in
            if no_data weather_data then Inr (pre_failure @ city @ post_failure_causes)
            else format_weather_result fmt (the weather_data) False)"
  using assms
  by (cases "get_weather_from_amap cfg net (py_strip city)";
      cases "format_weather_result fmt (the (fst (get_weather_from_amap cfg net (py_strip city)))) False")
     (simp_all add: query_weather_def bind_io_def emit_def ret_def pure_def)

lemma query_weather_forecast_result:
  assumes "\<not> blank city"
  shows "fst (query_weather_forecast cfg net fmt city days) =
           (let weather_data = fst (get_weather_from_amap cfg net (py_strip city)) in
            if no_data weather_data then Inr (pre_failure @ city @ post_weather_info)
            else format_weather_result fmt (the weather_data) True)"
  using assms
  by (cases "get_weather_from_amap cfg net (py_strip city)";
      cases "format_weather_result fmt (the (fst (get_weather_from_amap cfg net (py_strip city)))) True")
     (simp_all add: query_weather_forecast_def bind_io_def emit_def ret_def pure_def)

lemma fetch_Some_lives:
  assumes "fst (get_weather_from_amap cfg net city) = Some data"
  shows "py_truthy (dict_get data k_lives (JArr []))"
proof -
  from assms obtain evs where "get_weather_from_amap cfg net city = (Some data, evs)"
    by (cases "get_weather_from_amap cfg net city") simp
  from amap_try_Some [OF fetch_Some [OF this]] show ?thesis
    by (auto simp: dict_get_def keys_distinct)
qed

lemma clamp_days_idem: "clamp_days (clamp_days days) = clamp_days days"
  by (simp add: clamp_days_def)

lemma forecast_report_on:
  "\<exists>s. format_weather_result (\<lambda>_. []) forecast_report True = Inr s"
  by (simp add: format_weather_result_def result_lines_def live_result_def forecast_report_def
      forecast_section_def cast_line_def day_def test_live_def dict_get_def key_defs ascii_def)

lemma test_city_not_blank: "\<not> blank test_city"
  by (simp add: blank_def py_strip_def py_isspace_def test_city_def)

lemma strip_test_city: "py_strip test_city = test_city"
  by (simp add: py_strip_def py_isspace_def test_city_def)

lemma live_result_Inr: "live_result fmt city v = Inr base \<Longrightarrow> \<exists>live. v = JObj live"
  by (cases v) (simp_all add: live_result_def)

lemma test_report_on:
  "\<exists>s. format_weather_result (\<lambda>_. []) test_report True = Inr s"
  by (simp add: format_weather_result_def result_lines_def live_result_def test_report_def
      forecast_section_def test_live_def dict_get_def key_defs ascii_def)

lemma append_casts_lines:
  "append_casts fmt cs r = Inr r' \<Longrightarrow>
     \<exists>lines. r' = r @ lines \<and> map (cast_line fmt) cs = map Inr lines"
proof (induction cs arbitrary: r)
  case Nil
  then show ?case by simp
next
  case (Cons c cs)
  from Cons.prems obtain line where l: "cast_line fmt c = Inr line"
    and rest: "append_casts fmt cs (r @ [line]) = Inr r'"
    by (auto simp: seq_eq_Inr)
  from Cons.IH [OF rest] obtain lines where
    "r' = (r @ [line]) @ lines" "map (cast_line fmt) cs = map Inr lines"
    by blast
  with l have "r' = r @ (line # lines)
      \<and> map (cast_line fmt) (c # cs) = map Inr (line # lines)"
    by simp
  then show ?case by blast
qed

lemma forecast_section_cases:
  assumes "forecast_section fmt data r = Inr r'"
  shows "(r' = r
          \<and> (\<not> py_truthy (dict_get data k_forecasts (JArr []))
             \<or> (\<exists>fc groups. dict_get data k_forecasts (JArr []) = JArr (JObj fc # groups)
                   \<and> \<not> py_truthy (dict_get fc k_casts (JArr [])))))
       \<or> (\<exists>fc groups casts lines.
              dict_get data k_forecasts (JArr []) = JArr (JObj fc # groups)
            \<and> dict_get fc k_casts (JArr []) = JArr casts \<and> casts \<noteq> []
            \<and> map (cast_line fmt) (take 3 casts) = map Inr lines
            \<and> r' = r @ forecast_header # lines)"
proof (cases "py_truthy (dict_get data k_forecasts (JArr []))")
  case False
  with assms show ?thesis by (simp add: forecast_section_def)
next
  case True
  with assms obtain g cv where g: "py_index0 (dict_get data k_forecasts (JArr [])) = Inr g"
    and c: "py_get g k_casts (JArr []) = Inr cv"
    and rest: "(if py_truthy cv then
                  seq (py_slice3 cv) (\<lambda>first3. append_casts fmt first3 (r @ [forecast_header]))
                else Inr r) = Inr r'"
    by (auto simp: forecast_section_def seq_eq_Inr)
  from c obtain fc where fc: "g = JObj fc" and cv: "cv = dict_get fc k_casts (JArr [])"
    using py_get_Inr by blast
  from g fc obtain groups where gs: "dict_get data k_forecasts (JArr []) = JArr (JObj fc # groups)"
    using py_index0_JObj by blast
  show ?thesis
  proof (cases "py_truthy cv")
    case False
    with rest have "r' = r" by simp
    with False cv gs show ?thesis by blast
  next
    case True
    with rest obtain first3 where sl: "py_slice3 cv = Inr first3"
      and ap: "append_casts fmt first3 (r @ [forecast_header]) = Inr r'"
      by (auto simp: seq_eq_Inr)
    from slice_of_list [OF sl True ap] obtain casts where casts: "cv = JArr casts" "casts \<noteq> []"
      by blast
    with sl have f3: "first3 = take 3 casts" by simp
    from append_casts_lines [OF ap] obtain lines where
      "r' = (r @ [forecast_header]) @ lines" "map (cast_line fmt) first3 = map Inr lines"
      by blast
    with f3 have "map (cast_line fmt) (take 3 casts) = map Inr lines
        \<and> r' = r @ forecast_header # lines"
      by simp
    with gs cv casts show ?thesis by metis
  qed
qed

lemma bind_emit: "bind_io (emit ev) f = (fst (f ()), ev # snd (f ()))"
  by (cases "f ()") (simp add: bind_io_def emit_def)

lemma fetch_Some_nonempty:
  assumes "fst (get_weather_from_amap cfg net city) = Some data"
  shows "data \<noteq> []"
proof -
  from assms obtain evs where "get_weather_from_amap cfg net city = (Some data, evs)"
    by (cases "get_weather_from_amap cfg net city") simp
  from amap_try_Some [OF fetch_Some [OF this]] show ?thesis
    by auto
qed

lemma clamp_days_cases:
  "clamp_days days = (if days < 1 then 1 else if 7 < days then 7 else days)"
  by (simp add: clamp_days_def)

lemma forecast_report_forecasts:
  "dict_get forecast_report k_forecasts (JArr [])
     = JArr [JObj [(k_casts, JArr [JObj (day 1), JObj (day 2), JObj (day 3), JObj (day 4)])]]"
  by (simp add: forecast_report_def dict_get_def keys_distinct)

lemma forecast_report_base:
  "result_lines (\<lambda>_. []) forecast_report False = Inr
        [lbl_city @ test_city,
         lbl_temperature @ ascii ''25'' @ unit_celsius,
         lbl_humidity @ ascii ''50'' @ ascii ''%'',
         lbl_wind @ ascii ''3'' @ ascii '' '' @ [0x5317] @ unit_level,
         lbl_weather @ [0x6674],
         lbl_visibility @ ascii ''10'' @ unit_metre,
         lbl_reporttime @ ascii ''2026-01-29 12:00:00'']"
  by (simp add: result_lines_def live_result_def forecast_report_def test_live_def
      dict_get_def key_defs ascii_def)

lemma day_lines:
  "cast_line (\<lambda>_. []) (JObj (day 1))
     = Inr (ascii ''  2026-01-31'' @ cast_week @ ascii ''1'' @ cast_day @ [0x6674] @ ascii '' 11''
            @ cast_night @ [0x9634] @ ascii '' 1'' @ unit_celsius)"
  "cast_line (\<lambda>_. []) (JObj (day 2))
     = Inr (ascii ''  2026-01-32'' @ cast_week @ ascii ''2'' @ cast_day @ [0x6674] @ ascii '' 12''
            @ cast_night @ [0x9634] @ ascii '' 2'' @ unit_celsius)"
  "cast_line (\<lambda>_. []) (JObj (day 3))
     = Inr (ascii ''  2026-01-33'' @ cast_week @ ascii ''3'' @ cast_day @ [0x6674] @ ascii '' 13''
            @ cast_night @ [0x9634] @ ascii '' 3'' @ unit_celsius)"
  by (simp_all add: cast_line_def day_def dict_get_def key_defs ascii_def)

lemma fetched_report:
  "fst (get_weather_from_amap test_config net_ok (py_strip test_city)) = Some forecast_report"
  by (simp add: strip_test_city fetch_ok forecast_report_def four_days_def)

lemma query_forecast_returns:
  "\<exists>s. fst (query_weather_forecast test_config net_ok (\<lambda>_. []) test_city 10) = Inr s"
proof -
  from forecast_report_on obtain s where
    "format_weather_result (\<lambda>_. []) forecast_report True = Inr s" by blast
  then have "fst (query_weather_forecast test_config net_ok (\<lambda>_. []) test_city 10) = Inr s"
    by (simp add: query_weather_forecast_result [OF test_city_not_blank] fetched_report)
       (simp add: forecast_report_def)
  then show ?thesis by blast
qed

section \<open>Properties of \<open>_format_weather_result\<close>\<close>

text \<open>
  C5. When the live-conditions list of a report is empty (or absent, or any other false
  value), \<open>_format_weather_result\<close> returns, whatever the forecast flag and the forecast
  content, a string that contains the four characters U+65E0 U+6CD5 U+83B7 U+53D6
  ("cannot obtain") and the city name of the report.
\<close>

theorem format_no_lives:
  assumes "\<not> py_truthy (dict_get data k_lives (JArr []))"
  shows "\<exists>s. format_weather_result fmt data include_forecast = Inr s
           \<and> py_contains s [0x65E0, 0x6CD5, 0x83B7, 0x53D6]
           \<and> py_contains s (py_format fmt (dict_get data k_city (JStr default_city)))
           \<and> (\<forall>c. map_of data k_city = Some (JStr c) \<longrightarrow> py_contains s c)"
proof -
  let ?c = "py_format fmt (dict_get data k_city (JStr default_city))"
  let ?s = "pre_cannot_get @ ?c @ post_weather_info"
  have r: "format_weather_result fmt data include_forecast = Inr ?s"
    using assms by (simp add: format_weather_result_def)
  have "?s = [] @ [0x65E0, 0x6CD5, 0x83B7, 0x53D6] @ (ascii '' '' @ ?c @ post_weather_info)"
    by (simp add: pre_cannot_get_def)
  then have a: "py_contains ?s [0x65E0, 0x6CD5, 0x83B7, 0x53D6]"
    by (metis sublist_appendI)
  have b: "py_contains ?s ?c"
    by (rule sublist_appendI)
  have "py_contains ?s c" if "map_of data k_city = Some (JStr c)" for c
    using b that by (simp add: dict_get_def)
  with r a b show ?thesis by blast
qed

theorem format_no_lives_witness:
  "\<exists>s. format_weather_result (\<lambda>_. []) [(k_city, JStr [0x5317, 0x4EAC]), (k_lives, JArr [])] False
          = Inr s
      \<and> py_contains s [0x65E0, 0x6CD5, 0x83B7, 0x53D6]
      \<and> py_contains s [0x5317, 0x4EAC]"
proof -
  have l: "\<not> py_truthy (dict_get [(k_city, JStr [0x5317, 0x4EAC]), (k_lives, JArr [])]
                            k_lives (JArr []))"
    by (simp add: dict_get_def keys_distinct)
  have c: "map_of [(k_city, JStr [0x5317, 0x4EAC]), (k_lives, JArr [])] k_city
             = Some (JStr [0x5317, 0x4EAC])"
    by simp
  from format_no_lives [OF l, of "\<lambda>_. []" False] c show ?thesis
    by blast
qed

text \<open>
  C8. For a report whose live-conditions list is not empty, the string returned is the
  lines joined by newlines in this order: city, temperature, humidity, wind (power, then
  direction), weather description, visibility, report time. With the forecast disabled
  and a first live entry that is a record, the function returns exactly these seven
  lines. Whenever it returns a string, for either flag, the first live entry is a record
  and the string starts with these seven lines; with the forecast disabled nothing
  follows them.
\<close>

theorem live_lines_order:
  "(let seven = (\<lambda>live.
            [lbl_city @ py_format fmt (dict_get data k_city (JStr default_city)),
             lbl_temperature @ py_format fmt (dict_get live k_temperature (JStr na))
               @ unit_celsius,
             lbl_humidity @ py_format fmt (dict_get live k_humidity (JStr na)) @ ascii ''%'',
             lbl_wind @ py_format fmt (dict_get live k_windpower (JStr na)) @ ascii '' ''
               @ py_format fmt (dict_get live k_winddirection (JStr [])) @ unit_level,
             lbl_weather @ py_format fmt (dict_get live k_weather (JStr na)),
             lbl_visibility @ py_format fmt (dict_get live k_visibility (JStr na))
               @ unit_metre,
             lbl_reporttime @ py_format fmt (dict_get live k_reporttime (JStr na))])
    in (\<forall>live others. dict_get data k_lives (JArr []) = JArr (JObj live # others) \<longrightarrow>
          format_weather_result fmt data False = Inr (py_join nl (seven live)))
     \<and> (\<forall>include_forecast s.
          py_truthy (dict_get data k_lives (JArr []))
          \<and> format_weather_result fmt data include_forecast = Inr s \<longrightarrow>
          (\<exists>live others more.
              dict_get data k_lives (JArr []) = JArr (JObj live # others)
            \<and> s = py_join nl (seven live @ more)
            \<and> (\<not> include_forecast \<longrightarrow> more = []))))"
proof -
  define city where "city = dict_get data k_city (JStr default_city)"
  define seven where "seven = (\<lambda>live.
            [lbl_city @ py_format fmt city,
             lbl_temperature @ py_format fmt (dict_get live k_temperature (JStr na))
               @ unit_celsius,
             lbl_humidity @ py_format fmt (dict_get live k_humidity (JStr na)) @ ascii ''%'',
             lbl_wind @ py_format fmt (dict_get live k_windpower (JStr na)) @ ascii '' ''
               @ py_format fmt (dict_get live k_winddirection (JStr [])) @ unit_level,
             lbl_weather @ py_format fmt (dict_get live k_weather (JStr na)),
             lbl_visibility @ py_format fmt (dict_get live k_visibility (JStr na))
               @ unit_metre,
             lbl_reporttime @ py_format fmt (dict_get live k_reporttime (JStr na))])"
  have seven: "live_result fmt city (JObj live) = Inr (seven live)" for live
    by (simp add: live_result_JObj seven_def)
  have off: "format_weather_result fmt data False = Inr (py_join nl (seven live))"
    if l: "dict_get data k_lives (JArr []) = JArr (JObj live # others)" for live others
  proof -
    have t: "py_truthy (dict_get data k_lives (JArr []))"
      using l by simp
    show ?thesis
      by (simp add: format_truthy [OF t] result_lines_live [OF l] seven [unfolded city_def])
  qed
  have any: "\<exists>live others more.
              dict_get data k_lives (JArr []) = JArr (JObj live # others)
            \<and> s = py_join nl (seven live @ more)
            \<and> (\<not> include_forecast \<longrightarrow> more = [])"
    if t: "py_truthy (dict_get data k_lives (JArr []))"
      and s: "format_weather_result fmt data include_forecast = Inr s"
    for include_forecast s
  proof -
    from s obtain r where r: "result_lines fmt data include_forecast = Inr r"
      and sr: "s = py_join nl r"
      by (auto simp: format_truthy [OF t] seq_eq_Inr)
    from r obtain v base where v: "py_index0 (dict_get data k_lives (JArr [])) = Inr v"
      and base: "live_result fmt city v = Inr base"
      and rest: "(if include_forecast then forecast_section fmt data base else Inr base) = Inr r"
      by (auto simp: result_lines_def seq_eq_Inr city_def)
    from live_result_Inr [OF base] obtain live where live: "v = JObj live" by blast
    from v live obtain others where l: "dict_get data k_lives (JArr []) = JArr (JObj live # others)"
      using py_index0_JObj by blast
    from base live seven have b: "base = seven live" by simp
    have "\<exists>more. r = base @ more \<and> (\<not> include_forecast \<longrightarrow> more = [])"
    proof (cases include_forecast)
      case True
      with rest have "forecast_section fmt data base = Inr r" by simp
      from forecast_section_shape [OF this] True show ?thesis
        by (metis append_Nil2)
    next
      case False
      with rest show ?thesis by simp
    qed
    with l sr b show ?thesis by blast
  qed
  from off any have "(\<forall>live others. dict_get data k_lives (JArr []) = JArr (JObj live # others) \<longrightarrow>
          format_weather_result fmt data False = Inr (py_join nl (seven live)))
     \<and> (\<forall>include_forecast s.
          py_truthy (dict_get data k_lives (JArr []))
          \<and> format_weather_result fmt data include_forecast = Inr s \<longrightarrow>
          (\<exists>live others more.
              dict_get data k_lives (JArr []) = JArr (JObj live # others)
            \<and> s = py_join nl (seven live @ more)
            \<and> (\<not> include_forecast \<longrightarrow> more = [])))"
    by blast
  then show ?thesis
    unfolding Let_def seven_def city_def .
qed

theorem live_lines_order_witness:
  "format_weather_result (\<lambda>_. []) test_report False
   = Inr (py_join nl
      [lbl_city @ test_city,
       lbl_temperature @ ascii ''25'' @ unit_celsius,
       lbl_humidity @ ascii ''50'' @ ascii ''%'',
       lbl_wind @ ascii ''3'' @ ascii '' '' @ [0x5317] @ unit_level,
       lbl_weather @ [0x6674],
       lbl_visibility @ ascii ''10'' @ unit_metre,
       lbl_reporttime @ ascii ''2026-01-29 12:00:00''])
 \<and> (\<exists>more. format_weather_result (\<lambda>_. []) test_report True
   = Inr (py_join nl
      ([lbl_city @ test_city,
       lbl_temperature @ ascii ''25'' @ unit_celsius,
       lbl_humidity @ ascii ''50'' @ ascii ''%'',
       lbl_wind @ ascii ''3'' @ ascii '' '' @ [0x5317] @ unit_level,
       lbl_weather @ [0x6674],
       lbl_visibility @ ascii ''10'' @ unit_metre,
       lbl_reporttime @ ascii ''2026-01-29 12:00:00''] @ more)))"
proof -
  have l: "dict_get test_report k_lives (JArr []) = JArr (JObj test_live # [])"
    by (simp add: test_report_def dict_get_def keys_distinct)
  have c: "dict_get test_report k_city (JStr default_city) = JStr test_city"
    by (simp add: test_report_def dict_get_def)
  have f: "py_format (\<lambda>_. []) (dict_get test_live k_temperature (JStr na)) = ascii ''25''"
    "py_format (\<lambda>_. []) (dict_get test_live k_humidity (JStr na)) = ascii ''50''"
    "py_format (\<lambda>_. []) (dict_get test_live k_windpower (JStr na)) = ascii ''3''"
    "py_format (\<lambda>_. []) (dict_get test_live k_winddirection (JStr [])) = [0x5317]"
    "py_format (\<lambda>_. []) (dict_get test_live k_weather (JStr na)) = [0x6674]"
    "py_format (\<lambda>_. []) (dict_get test_live k_visibility (JStr na)) = ascii ''10''"
    "py_format (\<lambda>_. []) (dict_get test_live k_reporttime (JStr na)) = ascii ''2026-01-29 12:00:00''"
    by (simp_all add: test_live_def dict_get_def key_defs ascii_def)
  note t = live_lines_order [of "\<lambda>_. []" test_report, unfolded Let_def]
  from t [THEN conjunct1, rule_format, OF l]
  have 1: "format_weather_result (\<lambda>_. []) test_report False
   = Inr (py_join nl
      [lbl_city @ test_city,
       lbl_temperature @ ascii ''25'' @ unit_celsius,
       lbl_humidity @ ascii ''50'' @ ascii ''%'',
       lbl_wind @ ascii ''3'' @ ascii '' '' @ [0x5317] @ unit_level,
       lbl_weather @ [0x6674],
       lbl_visibility @ ascii ''10'' @ unit_metre,
       lbl_reporttime @ ascii ''2026-01-29 12:00:00''])"
    by (simp only: c f py_format.simps)
  from test_report_on obtain s where s: "format_weather_result (\<lambda>_. []) test_report True = Inr s"
    by blast
  have tr: "py_truthy (dict_get test_report k_lives (JArr []))"
    by (simp add: l)
  from t [THEN conjunct2, rule_format, OF conjI [OF tr s]]
  obtain live others more where
    "dict_get test_report k_lives (JArr []) = JArr (JObj live # others)"
    and m: "s = py_join nl
        ([lbl_city @ py_format (\<lambda>_. []) (dict_get test_report k_city (JStr default_city)),
          lbl_temperature @ py_format (\<lambda>_. []) (dict_get live k_temperature (JStr na))
            @ unit_celsius,
          lbl_humidity @ py_format (\<lambda>_. []) (dict_get live k_humidity (JStr na)) @ ascii ''%'',
          lbl_wind @ py_format (\<lambda>_. []) (dict_get live k_windpower (JStr na)) @ ascii '' ''
            @ py_format (\<lambda>_. []) (dict_get live k_winddirection (JStr [])) @ unit_level,
          lbl_weather @ py_format (\<lambda>_. []) (dict_get live k_weather (JStr na)),
          lbl_visibility @ py_format (\<lambda>_. []) (dict_get live k_visibility (JStr na))
            @ unit_metre,
          lbl_reporttime @ py_format (\<lambda>_. []) (dict_get live k_reporttime (JStr na))] @ more)"
    by blast
  with l have "live = test_live" by simp
  with m s have "format_weather_result (\<lambda>_. []) test_report True
   = Inr (py_join nl
      ([lbl_city @ test_city,
       lbl_temperature @ ascii ''25'' @ unit_celsius,
       lbl_humidity @ ascii ''50'' @ ascii ''%'',
       lbl_wind @ ascii ''3'' @ ascii '' '' @ [0x5317] @ unit_level,
       lbl_weather @ [0x6674],
       lbl_visibility @ ascii ''10'' @ unit_metre,
       lbl_reporttime @ ascii ''2026-01-29 12:00:00''] @ more))"
    by (simp only: c f py_format.simps)
  with 1 show ?thesis by blast
qed

text \<open>
  C7, as the code has it. The claim says that every absent field of the live record,
  wind direction included, is shown as \<open>N/A\<close>. On line 131 the default of
  \<open>winddirection\<close> is the empty string: with no field at all the wind line is the label,
  \<open>N/A\<close>, a space and the unit, not \<open>N/A N/A\<close> before the unit.
\<close>

theorem absent_winddirection_counterexample:
  "map_of [] k_winddirection = None
   \<and> format_weather_result (\<lambda>_. []) bare_report False
     = Inr (py_join nl
        [lbl_city @ test_city,
         lbl_temperature @ na @ unit_celsius,
         lbl_humidity @ na @ ascii ''%'',
         lbl_wind @ na @ ascii '' '' @ unit_level,
         lbl_weather @ na,
         lbl_visibility @ na @ unit_metre,
         lbl_reporttime @ na])
   \<and> lbl_wind @ na @ ascii '' '' @ unit_level \<noteq> lbl_wind @ na @ ascii '' '' @ na @ unit_level"
  by (simp add: format_weather_result_def result_lines_def live_result_def bare_report_def
      dict_get_def key_defs ascii_def na_def unit_level_def)

text \<open>
  C7, amended. For a report whose first live record is \<open>live\<close>, the lines of the result
  (for either flag, whenever the function returns) show \<open>N/A\<close> in the place of each of
  temperature, humidity, wind power, weather, visibility and report time that is absent,
  and nothing in the place of an absent wind direction. With the forecast disabled the
  function always returns.
\<close>

theorem absent_fields:
  assumes "dict_get data k_lives (JArr []) = JArr (JObj live # others)"
  shows "(\<exists>lines. result_lines fmt data False = Inr lines)
       \<and> (\<forall>include_forecast lines. result_lines fmt data include_forecast = Inr lines \<longrightarrow>
            format_weather_result fmt data include_forecast = Inr (py_join nl lines)
          \<and> 7 \<le> length lines
          \<and> (map_of live k_temperature = None \<longrightarrow>
               lines ! 1 = lbl_temperature @ na @ unit_celsius)
          \<and> (map_of live k_humidity = None \<longrightarrow>
               lines ! 2 = lbl_humidity @ na @ ascii ''%'')
          \<and> (map_of live k_windpower = None \<longrightarrow>
               (\<exists>direction. lines ! 3 = lbl_wind @ na @ ascii '' '' @ direction @ unit_level))
          \<and> (map_of live k_winddirection = None \<longrightarrow>
               (\<exists>power. lines ! 3 = lbl_wind @ power @ ascii '' '' @ unit_level))
          \<and> (map_of live k_weather = None \<longrightarrow> lines ! 4 = lbl_weather @ na)
          \<and> (map_of live k_visibility = None \<longrightarrow>
               lines ! 5 = lbl_visibility @ na @ unit_metre)
          \<and> (map_of live k_reporttime = None \<longrightarrow> lines ! 6 = lbl_reporttime @ na))"
proof -
  define city where "city = dict_get data k_city (JStr default_city)"
  define seven where "seven =
     [lbl_city @ py_format fmt city,
      lbl_temperature @ py_format fmt (dict_get live k_temperature (JStr na)) @ unit_celsius,
      lbl_humidity @ py_format fmt (dict_get live k_humidity (JStr na)) @ ascii ''%'',
      lbl_wind @ py_format fmt (dict_get live k_windpower (JStr na)) @ ascii '' ''
        @ py_format fmt (dict_get live k_winddirection (JStr [])) @ unit_level,
      lbl_weather @ py_format fmt (dict_get live k_weather (JStr na)),
      lbl_visibility @ py_format fmt (dict_get live k_visibility (JStr na)) @ unit_metre,
      lbl_reporttime @ py_format fmt (dict_get live k_reporttime (JStr na))]"
  have seven: "live_result fmt city (JObj live) = Inr seven"
    by (simp add: live_result_JObj seven_def)
  have t: "py_truthy (dict_get data k_lives (JArr []))"
    using assms by simp
  have off: "result_lines fmt data False = Inr seven"
    using result_lines_live(1) [OF assms, of fmt] seven by (simp add: city_def)
  have pre: "\<exists>more. lines = seven @ more"
    if "result_lines fmt data include_forecast = Inr lines" for include_forecast lines
  proof (cases include_forecast)
    case False
    with that off show ?thesis by simp
  next
    case True
    with that have "forecast_section fmt data seven = Inr lines"
      using result_lines_live(2) [OF assms, of fmt] seven by (simp add: city_def)
    from forecast_section_shape [OF this] show ?thesis
      by (metis append_Nil2)
  qed
  have len: "length seven = 7"
    by (simp add: seven_def)
  have nth: "(seven @ more) ! i = seven ! i" if "i < 7" for more i
    using that len by (simp add: nth_append)
  have fields:
    "map_of live k_temperature = None \<longrightarrow> seven ! 1 = lbl_temperature @ na @ unit_celsius"
    "map_of live k_humidity = None \<longrightarrow> seven ! 2 = lbl_humidity @ na @ ascii ''%''"
    "map_of live k_windpower = None \<longrightarrow>
       (\<exists>direction. seven ! 3 = lbl_wind @ na @ ascii '' '' @ direction @ unit_level)"
    "map_of live k_winddirection = None \<longrightarrow>
       (\<exists>power. seven ! 3 = lbl_wind @ power @ ascii '' '' @ unit_level)"
    "map_of live k_weather = None \<longrightarrow> seven ! 4 = lbl_weather @ na"
    "map_of live k_visibility = None \<longrightarrow> seven ! 5 = lbl_visibility @ na @ unit_metre"
    "map_of live k_reporttime = None \<longrightarrow> seven ! 6 = lbl_reporttime @ na"
    by (simp_all add: seven_def dict_get_absent)
  have main: "format_weather_result fmt data include_forecast = Inr (py_join nl lines)
          \<and> 7 \<le> length lines
          \<and> (map_of live k_temperature = None \<longrightarrow>
               lines ! 1 = lbl_temperature @ na @ unit_celsius)
          \<and> (map_of live k_humidity = None \<longrightarrow>
               lines ! 2 = lbl_humidity @ na @ ascii ''%'')
          \<and> (map_of live k_windpower = None \<longrightarrow>
               (\<exists>direction. lines ! 3 = lbl_wind @ na @ ascii '' '' @ direction @ unit_level))
          \<and> (map_of live k_winddirection = None \<longrightarrow>
               (\<exists>power. lines ! 3 = lbl_wind @ power @ ascii '' '' @ unit_level))
          \<and> (map_of live k_weather = None \<longrightarrow> lines ! 4 = lbl_weather @ na)
          \<and> (map_of live k_visibility = None \<longrightarrow>
               lines ! 5 = lbl_visibility @ na @ unit_metre)
          \<and> (map_of live k_reporttime = None \<longrightarrow> lines ! 6 = lbl_reporttime @ na)"
    if r: "result_lines fmt data include_forecast = Inr lines" for include_forecast lines
  proof -
    from pre [OF r] obtain more where l: "lines = seven @ more" by blast
    have "format_weather_result fmt data include_forecast = Inr (py_join nl lines)"
      by (simp add: format_truthy [OF t] r)
    moreover have "7 \<le> length lines"
      by (simp add: l len)
    ultimately show ?thesis
      using fields by (simp add: l nth)
  qed
  from off main show ?thesis by blast
qed

theorem absent_fields_witness:
  "format_weather_result (\<lambda>_. []) bare_report False
     = Inr (py_join nl
        [lbl_city @ test_city,
         lbl_temperature @ na @ unit_celsius,
         lbl_humidity @ na @ ascii ''%'',
         lbl_wind @ na @ ascii '' '' @ unit_level,
         lbl_weather @ na,
         lbl_visibility @ na @ unit_metre,
         lbl_reporttime @ na])"
proof -
  have l: "dict_get bare_report k_lives (JArr []) = JArr (JObj [] # [])"
    by (simp add: bare_report_def dict_get_def key_defs ascii_def)
  have r: "result_lines (\<lambda>_. []) bare_report False = Inr 
        [lbl_city @ test_city,
         lbl_temperature @ na @ unit_celsius,
         lbl_humidity @ na @ ascii ''%'',
         lbl_wind @ na @ ascii '' '' @ unit_level,
         lbl_weather @ na,
         lbl_visibility @ na @ unit_metre,
         lbl_reporttime @ na]"
    by (simp add: result_lines_def live_result_def bare_report_def dict_get_def key_defs ascii_def)
  from absent_fields [OF l, of "\<lambda>_. []"] r show ?thesis
    by blast
qed

text \<open>
  C6. For a report whose live-conditions list is not empty and whose forecast holds at
  least four forecast days (records), \<open>_format_weather_result\<close> with the forecast
  enabled returns the lines of the forecast-disabled result, the header, and exactly
  three forecast lines: those of the first three days, in the order of the provider.
\<close>

theorem three_forecast_lines:
  assumes lives: "dict_get data k_lives (JArr []) = JArr (JObj live # others)"
    and forecasts: "dict_get data k_forecasts (JArr []) = JArr (JObj fc # groups)"
    and casts: "dict_get fc k_casts (JArr [])
                  = JArr (JObj c1 # JObj c2 # JObj c3 # c4 # rest)"
  shows "\<exists>base l1 l2 l3.
           result_lines fmt data False = Inr base
         \<and> cast_line fmt (JObj c1) = Inr l1
         \<and> cast_line fmt (JObj c2) = Inr l2
         \<and> cast_line fmt (JObj c3) = Inr l3
         \<and> result_lines fmt data True = Inr (base @ [forecast_header, l1, l2, l3])
         \<and> format_weather_result fmt data True
             = Inr (py_join nl (base @ [forecast_header, l1, l2, l3]))"
proof -
  obtain base where base: "live_result fmt (dict_get data k_city (JStr default_city)) (JObj live)
                             = Inr base"
    by (simp add: live_result_JObj)
  obtain l1 l2 l3 where l: "cast_line fmt (JObj c1) = Inr l1" "cast_line fmt (JObj c2) = Inr l2"
      "cast_line fmt (JObj c3) = Inr l3"
    by (simp add: cast_line_JObj)
  have t: "py_truthy (dict_get data k_lives (JArr []))"
    using lives by simp
  have off: "result_lines fmt data False = Inr base"
    by (simp add: result_lines_live(1) [OF lives] base)
  have "forecast_section fmt data base = Inr (base @ [forecast_header, l1, l2, l3])"
    by (simp add: forecast_section_first [OF forecasts] casts l)
  then have on: "result_lines fmt data True = Inr (base @ [forecast_header, l1, l2, l3])"
    by (simp add: result_lines_live(2) [OF lives] base)
  then have "format_weather_result fmt data True
               = Inr (py_join nl (base @ [forecast_header, l1, l2, l3]))"
    by (simp only: format_truthy [OF t] seq_Inr)
  with off on l show ?thesis by blast
qed

theorem three_forecast_lines_witness:
  "format_weather_result (\<lambda>_. []) forecast_report True
     = Inr (py_join nl
        [lbl_city @ test_city,
         lbl_temperature @ ascii ''25'' @ unit_celsius,
         lbl_humidity @ ascii ''50'' @ ascii ''%'',
         lbl_wind @ ascii ''3'' @ ascii '' '' @ [0x5317] @ unit_level,
         lbl_weather @ [0x6674],
         lbl_visibility @ ascii ''10'' @ unit_metre,
         lbl_reporttime @ ascii ''2026-01-29 12:00:00'',
         forecast_header,
         ascii ''  2026-01-31'' @ cast_week @ ascii ''1'' @ cast_day @ [0x6674] @ ascii '' 11''
           @ cast_night @ [0x9634] @ ascii '' 1'' @ unit_celsius,
         ascii ''  2026-01-32'' @ cast_week @ ascii ''2'' @ cast_day @ [0x6674] @ ascii '' 12''
           @ cast_night @ [0x9634] @ ascii '' 2'' @ unit_celsius,
         ascii ''  2026-01-33'' @ cast_week @ ascii ''3'' @ cast_day @ [0x6674] @ ascii '' 13''
           @ cast_night @ [0x9634] @ ascii '' 3'' @ unit_celsius])"
proof -
  have lives: "dict_get forecast_report k_lives (JArr []) = JArr (JObj test_live # [])"
    by (simp add: forecast_report_def dict_get_def key_defs ascii_def)
  have forecasts: "dict_get forecast_report k_forecasts (JArr [])
      = JArr (JObj [(k_casts, JArr [JObj (day 1), JObj (day 2), JObj (day 3), JObj (day 4)])] # [])"
    by (simp add: forecast_report_def dict_get_def key_defs ascii_def)
  have casts: "dict_get [(k_casts, JArr [JObj (day 1), JObj (day 2), JObj (day 3), JObj (day 4)])]
                 k_casts (JArr [])
      = JArr (JObj (day 1) # JObj (day 2) # JObj (day 3) # JObj (day 4) # [])"
    by (simp add: dict_get_def)
  have base: "result_lines (\<lambda>_. []) forecast_report False = Inr
        [lbl_city @ test_city,
         lbl_temperature @ ascii ''25'' @ unit_celsius,
         lbl_humidity @ ascii ''50'' @ ascii ''%'',
         lbl_wind @ ascii ''3'' @ ascii '' '' @ [0x5317] @ unit_level,
         lbl_weather @ [0x6674],
         lbl_visibility @ ascii ''10'' @ unit_metre,
         lbl_reporttime @ ascii ''2026-01-29 12:00:00'']"
    by (simp add: result_lines_def live_result_def forecast_report_def test_live_def
        dict_get_def key_defs ascii_def)
  have l: "cast_line (\<lambda>_. []) (JObj (day 1))
        = Inr (ascii ''  2026-01-31'' @ cast_week @ ascii ''1'' @ cast_day @ [0x6674] @ ascii '' 11''
           @ cast_night @ [0x9634] @ ascii '' 1'' @ unit_celsius)"
     "cast_line (\<lambda>_. []) (JObj (day 2))
        = Inr (ascii ''  2026-01-32'' @ cast_week @ ascii ''2'' @ cast_day @ [0x6674] @ ascii '' 12''
           @ cast_night @ [0x9634] @ ascii '' 2'' @ unit_celsius)"
     "cast_line (\<lambda>_. []) (JObj (day 3))
        = Inr (ascii ''  2026-01-33'' @ cast_week @ ascii ''3'' @ cast_day @ [0x6674] @ ascii '' 13''
           @ cast_night @ [0x9634] @ ascii '' 3'' @ unit_celsius)"
    by (simp_all add: cast_line_def day_def dict_get_def key_defs ascii_def)
  from three_forecast_lines [OF lives forecasts casts, of "\<lambda>_. []"] base l
  show ?thesis by auto
qed

text \<open>
  C10. With the forecast enabled only the first element of \<open>forecasts\<close> is consulted:
  replacing the sequence by its first element alone does not change the result. When
  \<open>forecasts\<close> is empty (or absent), or the \<open>casts\<close> of its first group is empty (or
  absent), the result equals the forecast-disabled one. And whenever the enabled result
  is a string that differs from the disabled one, \<open>forecasts\<close> is a non-empty list, its
  first element a record with a non-empty \<open>casts\<close> list, and the string is the disabled
  lines followed by the header and one to three forecast lines.
\<close>

theorem forecast_first_group_only:
  "(\<forall>g groups. dict_get data k_forecasts (JArr []) = JArr (g # groups) \<longrightarrow>
      format_weather_result fmt ((k_forecasts, JArr [g]) # data) True
        = format_weather_result fmt data True)
 \<and> (\<not> py_truthy (dict_get data k_forecasts (JArr []))
      \<or> (\<exists>fc groups. dict_get data k_forecasts (JArr []) = JArr (JObj fc # groups)
            \<and> \<not> py_truthy (dict_get fc k_casts (JArr []))) \<longrightarrow>
      format_weather_result fmt data True = format_weather_result fmt data False)
 \<and> (format_weather_result fmt data True \<noteq> format_weather_result fmt data False \<longrightarrow>
      (\<forall>s. format_weather_result fmt data True = Inr s \<longrightarrow>
        (\<exists>g groups fc casts base lines.
            dict_get data k_forecasts (JArr []) = JArr (g # groups)
          \<and> g = JObj fc \<and> dict_get fc k_casts (JArr []) = JArr casts \<and> casts \<noteq> []
          \<and> format_weather_result fmt data False = Inr (py_join nl base)
          \<and> lines \<noteq> [] \<and> length lines \<le> 3
          \<and> s = py_join nl (base @ forecast_header # lines))))"
  (is "?first \<and> ?same \<and> ?only")
proof (intro conjI)
  show ?first
  proof (intro allI impI)
    fix g groups
    assume f: "dict_get data k_forecasts (JArr []) = JArr (g # groups)"
    let ?data' = "(k_forecasts, JArr [g]) # data"
    have f': "dict_get ?data' k_forecasts (JArr []) = JArr (g # [])"
      by (simp add: dict_get_set_forecasts)
    have "forecast_section fmt ?data' r = forecast_section fmt data r" for r
      by (simp only: forecast_section_first [OF f] forecast_section_first [OF f'])
    then have "result_lines fmt ?data' True = result_lines fmt data True"
      by (simp add: result_lines_def dict_get_set_forecasts)
    then show "format_weather_result fmt ?data' True = format_weather_result fmt data True"
      by (simp add: format_weather_result_def dict_get_set_forecasts)
  qed
next
  show ?same
  proof
    assume h: "\<not> py_truthy (dict_get data k_forecasts (JArr []))
      \<or> (\<exists>fc groups. dict_get data k_forecasts (JArr []) = JArr (JObj fc # groups)
            \<and> \<not> py_truthy (dict_get fc k_casts (JArr [])))"
    have "forecast_section fmt data r = Inr r" for r
      using h by (auto simp: forecast_section_falsy forecast_section_first)
    then have "result_lines fmt data True = result_lines fmt data False"
      by (simp add: result_lines_def)
    then show "format_weather_result fmt data True = format_weather_result fmt data False"
      by (simp add: format_weather_result_def)
  qed
next
  show ?only
  proof (intro impI allI)
    fix s
    assume ne: "format_weather_result fmt data True \<noteq> format_weather_result fmt data False"
      and s: "format_weather_result fmt data True = Inr s"
    have t: "py_truthy (dict_get data k_lives (JArr []))"
    proof (rule ccontr)
      assume "\<not> py_truthy (dict_get data k_lives (JArr []))"
      then have "format_weather_result fmt data True = format_weather_result fmt data False"
        by (simp add: format_weather_result_def)
      with ne show False by simp
    qed
    from s obtain r' where r': "result_lines fmt data True = Inr r'" and sr: "s = py_join nl r'"
      by (auto simp: format_truthy [OF t] seq_eq_Inr)
    from r' obtain live base where live: "py_index0 (dict_get data k_lives (JArr [])) = Inr live"
      and base: "live_result fmt (dict_get data k_city (JStr default_city)) live = Inr base"
      and fs: "forecast_section fmt data base = Inr r'"
      by (auto simp: result_lines_def seq_eq_Inr)
    have off: "result_lines fmt data False = Inr base"
      by (simp add: result_lines_def live base)
    then have foff: "format_weather_result fmt data False = Inr (py_join nl base)"
      by (simp add: format_truthy [OF t])
    have tf: "py_truthy (dict_get data k_forecasts (JArr []))"
    proof (rule ccontr)
      assume "\<not> py_truthy (dict_get data k_forecasts (JArr []))"
      then have "r' = base" using fs by (simp add: forecast_section_falsy)
      with ne s sr foff show False by simp
    qed
    from fs tf obtain g casts where g: "py_index0 (dict_get data k_forecasts (JArr [])) = Inr g"
      and c: "py_get g k_casts (JArr []) = Inr casts"
      and rest: "(if py_truthy casts then
                  seq (py_slice3 casts) (\<lambda>first3. append_casts fmt first3 (base @ [forecast_header]))
                else Inr base) = Inr r'"
      by (auto simp: forecast_section_def seq_eq_Inr)
    have tc: "py_truthy casts"
    proof (rule ccontr)
      assume "\<not> py_truthy casts"
      with rest have "r' = base" by simp
      with ne s sr foff show False by simp
    qed
    from rest tc obtain first3 where sl: "py_slice3 casts = Inr first3"
      and ap: "append_casts fmt first3 (base @ [forecast_header]) = Inr r'"
      by (auto simp: seq_eq_Inr)
    from append_casts_shape [OF ap] obtain lines where
      lines: "r' = (base @ [forecast_header]) @ lines" "length lines = length first3"
      by blast
    from py_slice3_shape [OF sl tc] have f3: "first3 \<noteq> [] \<and> length first3 \<le> 3" .
    obtain fc where fc: "g = JObj fc"
      using c by (cases g) auto
    show "\<exists>g groups fc casts base lines.
            dict_get data k_forecasts (JArr []) = JArr (g # groups)
          \<and> g = JObj fc \<and> dict_get fc k_casts (JArr []) = JArr casts \<and> casts \<noteq> []
          \<and> format_weather_result fmt data False = Inr (py_join nl base)
          \<and> lines \<noteq> [] \<and> length lines \<le> 3
          \<and> s = py_join nl (base @ forecast_header # lines)"
    proof -
      from c obtain fc where fc: "g = JObj fc" and cv: "casts = dict_get fc k_casts (JArr [])"
        using py_get_Inr by blast
      from g fc obtain groups where gs: "dict_get data k_forecasts (JArr []) = JArr (g # groups)"
        using py_index0_JObj by blast
      from slice_of_list [OF sl tc ap] obtain xs where xs: "casts = JArr xs" "xs \<noteq> []"
        by blast
      have "lines \<noteq> [] \<and> length lines \<le> 3"
        using lines(2) f3 by auto
      moreover have "s = py_join nl (base @ forecast_header # lines)"
        using sr lines(1) by simp
      moreover have "dict_get fc k_casts (JArr []) = JArr xs"
        using cv xs(1) by simp
      ultimately have "dict_get data k_forecasts (JArr []) = JArr (g # groups)
          \<and> g = JObj fc \<and> dict_get fc k_casts (JArr []) = JArr xs \<and> xs \<noteq> []
          \<and> format_weather_result fmt data False = Inr (py_join nl base)
          \<and> lines \<noteq> [] \<and> length lines \<le> 3
          \<and> s = py_join nl (base @ forecast_header # lines)"
        using gs fc xs(2) foff by simp
      then show ?thesis by blast
    qed
  qed
qed

theorem forecast_first_group_only_witness:
  "format_weather_result (\<lambda>_. [])
      ((k_forecasts, JArr [JObj [(k_casts, JArr [JObj (day 1)])]]) # two_groups) True
     = format_weather_result (\<lambda>_. []) two_groups True
 \<and> format_weather_result (\<lambda>_. []) test_report True
     = format_weather_result (\<lambda>_. []) test_report False
 \<and> (\<exists>base lines. format_weather_result (\<lambda>_. []) two_groups False = Inr (py_join nl base)
        \<and> lines \<noteq> [] \<and> length lines \<le> 3
        \<and> format_weather_result (\<lambda>_. []) two_groups True
            = Inr (py_join nl (base @ forecast_header # lines)))"
proof -
  have f: "dict_get two_groups k_forecasts (JArr [])
     = JArr (JObj [(k_casts, JArr [JObj (day 1)])]
             # [JObj [(k_casts, JArr [JObj (day 2), JObj (day 3)])]])"
    by (simp add: two_groups_def dict_get_def key_defs ascii_def)
  have e: "\<not> py_truthy (dict_get test_report k_forecasts (JArr []))"
    by (simp add: test_report_def dict_get_def key_defs ascii_def)
  note a = forecast_first_group_only [of two_groups "\<lambda>_. []"]
  note b = forecast_first_group_only [of test_report "\<lambda>_. []"]
  from a f have 1: "format_weather_result (\<lambda>_. [])
      ((k_forecasts, JArr [JObj [(k_casts, JArr [JObj (day 1)])]]) # two_groups) True
     = format_weather_result (\<lambda>_. []) two_groups True"
    by blast
  from b e have 2: "format_weather_result (\<lambda>_. []) test_report True
     = format_weather_result (\<lambda>_. []) test_report False"
    by blast
  from two_groups_on obtain s where s: "format_weather_result (\<lambda>_. []) two_groups True = Inr s"
    by blast
  from a [THEN conjunct2, THEN conjunct2, rule_format, OF two_groups_differ s]
  obtain base lines where c: "format_weather_result (\<lambda>_. []) two_groups False = Inr (py_join nl base)"
      "lines \<noteq> []" "length lines \<le> 3" "s = py_join nl (base @ forecast_header # lines)"
    by blast
  from s c(4) have "format_weather_result (\<lambda>_. []) two_groups True
            = Inr (py_join nl (base @ forecast_header # lines))"
    by (simp only:)
  with c(1,2,3) have 3: "\<exists>base lines.
        format_weather_result (\<lambda>_. []) two_groups False = Inr (py_join nl base)
        \<and> lines \<noteq> [] \<and> length lines \<le> 3
        \<and> format_weather_result (\<lambda>_. []) two_groups True
            = Inr (py_join nl (base @ forecast_header # lines))"
    by blast
  from 1 2 3 show ?thesis by blast
qed

section \<open>Properties of \<open>_get_weather_from_amap\<close>\<close>

text \<open>
  C4. Whenever the fetch returns a record, both requests were answered, the weather
  answer is an object whose status is \<open>"1"\<close> and whose \<open>lives\<close> is present and true (so
  not the empty list), and the record holds exactly that \<open>lives\<close>. And when the weather
  answer has an empty (or absent, or false) \<open>lives\<close>, the fetch returns no data, whatever
  the answer holds under \<open>forecasts\<close>.
\<close>

theorem fetch_needs_lives:
  "(\<forall>d evs. get_weather_from_amap cfg net city = (Some d, evs) \<longrightarrow>
      (\<exists>geo city_code w lives.
           net (TIMEOUT cfg) (API_BASE_URL cfg @ ascii ''/geocode/geo'')
             [(k_key, JStr (API_KEY cfg)), (k_address, JStr city)] = Inr geo
         \<and> first_adcode geo = Inr city_code
         \<and> net (TIMEOUT cfg) (API_BASE_URL cfg @ ascii ''/weather/weatherInfo'')
             [(k_key, JStr (API_KEY cfg)), (k_city, city_code),
              (k_extensions, JStr (ascii ''all''))] = Inr (JObj w)
         \<and> map_of w k_status = Some (JStr (ascii ''1''))
         \<and> map_of w k_lives = Some lives \<and> py_truthy lives \<and> lives \<noteq> JArr []
         \<and> d = [(k_city, JStr city), (k_lives, lives),
                  (k_forecasts, dict_get w k_forecasts (JArr []))]
         \<and> dict_get d k_lives (JArr []) = lives))
 \<and> (\<forall>geo city_code w.
        net (TIMEOUT cfg) (API_BASE_URL cfg @ ascii ''/geocode/geo'')
          [(k_key, JStr (API_KEY cfg)), (k_address, JStr city)] = Inr geo
      \<and> first_adcode geo = Inr city_code
      \<and> net (TIMEOUT cfg) (API_BASE_URL cfg @ ascii ''/weather/weatherInfo'')
          [(k_key, JStr (API_KEY cfg)), (k_city, city_code),
           (k_extensions, JStr (ascii ''all''))] = Inr (JObj w)
      \<and> \<not> py_truthy (dict_get w k_lives (JArr [])) \<longrightarrow>
        fst (get_weather_from_amap cfg net city) = None)"
  (is "?only \<and> ?fails")
proof
  have some: "\<exists>geo city_code w lives.
           net (TIMEOUT cfg) (API_BASE_URL cfg @ ascii ''/geocode/geo'')
             [(k_key, JStr (API_KEY cfg)), (k_address, JStr city)] = Inr geo
         \<and> first_adcode geo = Inr city_code
         \<and> net (TIMEOUT cfg) (API_BASE_URL cfg @ ascii ''/weather/weatherInfo'')
             [(k_key, JStr (API_KEY cfg)), (k_city, city_code),
              (k_extensions, JStr (ascii ''all''))] = Inr (JObj w)
         \<and> map_of w k_status = Some (JStr (ascii ''1''))
         \<and> map_of w k_lives = Some lives \<and> py_truthy lives \<and> lives \<noteq> JArr []
         \<and> d = [(k_city, JStr city), (k_lives, lives),
                  (k_forecasts, dict_get w k_forecasts (JArr []))]
         \<and> dict_get d k_lives (JArr []) = lives"
    if "get_weather_from_amap cfg net city = (Some d, evs)" for d evs
  proof -
    from amap_try_Some [OF fetch_Some [OF that]] obtain geo city_code w lives where
      f: "net (TIMEOUT cfg) (API_BASE_URL cfg @ ascii ''/geocode/geo'')
             [(k_key, JStr (API_KEY cfg)), (k_address, JStr city)] = Inr geo"
         "first_adcode geo = Inr city_code"
         "net (TIMEOUT cfg) (API_BASE_URL cfg @ ascii ''/weather/weatherInfo'')
             [(k_key, JStr (API_KEY cfg)), (k_city, city_code),
              (k_extensions, JStr (ascii ''all''))] = Inr (JObj w)"
         "map_of w k_status = Some (JStr (ascii ''1''))"
         "map_of w k_lives = Some lives" "py_truthy lives"
         "d = [(k_city, JStr city), (k_lives, lives),
                  (k_forecasts, dict_get w k_forecasts (JArr []))]"
      by blast
    from f(6) have "lives \<noteq> JArr []" by auto
    moreover from f(7) have "dict_get d k_lives (JArr []) = lives"
      by (simp add: dict_get_def keys_distinct)
    ultimately show ?thesis using f by blast
  qed
  then show ?only by blast
  show ?fails
  proof (intro allI impI, elim conjE)
    fix geo city_code w
    assume g: "net (TIMEOUT cfg) (API_BASE_URL cfg @ ascii ''/geocode/geo'')
          [(k_key, JStr (API_KEY cfg)), (k_address, JStr city)] = Inr geo"
      and c: "first_adcode geo = Inr city_code"
      and w: "net (TIMEOUT cfg) (API_BASE_URL cfg @ ascii ''/weather/weatherInfo'')
          [(k_key, JStr (API_KEY cfg)), (k_city, city_code),
           (k_extensions, JStr (ascii ''all''))] = Inr (JObj w)"
      and e: "\<not> py_truthy (dict_get w k_lives (JArr []))"
    show "fst (get_weather_from_amap cfg net city) = None"
    proof (cases "get_weather_from_amap cfg net city")
      case (Pair r evs)
      show ?thesis
      proof (cases r)
        case None
        with Pair show ?thesis by simp
      next
        case (Some d)
        with Pair some [of d evs] g c w e show ?thesis
          by (auto simp: dict_get_def)
      qed
    qed
  qed
qed

theorem fetch_needs_lives_witness:
  "(\<exists>lives. py_truthy lives \<and> lives \<noteq> JArr []
      \<and> dict_get [(k_city, JStr test_city), (k_lives, JArr [JObj test_live]),
                   (k_forecasts, four_days)] k_lives (JArr []) = lives)
 \<and> fst (get_weather_from_amap test_config net_no_lives test_city) = None"
proof -
  note ok = fetch_needs_lives [of test_config net_ok test_city, THEN conjunct1, rule_format,
      OF fetch_ok]
  then have 1: "\<exists>lives. py_truthy lives \<and> lives \<noteq> JArr []
      \<and> dict_get [(k_city, JStr test_city), (k_lives, JArr [JObj test_live]),
                   (k_forecasts, four_days)] k_lives (JArr []) = lives"
    by blast
  have g: "net_no_lives (TIMEOUT test_config) (API_BASE_URL test_config @ ascii ''/geocode/geo'')
          [(k_key, JStr (API_KEY test_config)), (k_address, JStr test_city)] = Inr geo_found"
    by (simp add: net_no_lives_def answering_def test_config_def ascii_def)
  have c: "first_adcode geo_found = Inr (JStr (ascii ''110000''))"
    by (simp add: first_adcode_def geo_found_def dict_get_def key_defs ascii_def)
  have w: "net_no_lives (TIMEOUT test_config)
          (API_BASE_URL test_config @ ascii ''/weather/weatherInfo'')
          [(k_key, JStr (API_KEY test_config)), (k_city, JStr (ascii ''110000'')),
           (k_extensions, JStr (ascii ''all''))]
       = Inr (JObj [(k_status, JStr (ascii ''1'')), (k_lives, JArr []), (k_forecasts, four_days)])"
    by (simp add: net_no_lives_def answering_def test_config_def ascii_def)
  have e: "\<not> py_truthy (dict_get [(k_status, JStr (ascii ''1'')), (k_lives, JArr []),
                                   (k_forecasts, four_days)] k_lives (JArr []))"
    by (simp add: dict_get_def key_defs ascii_def)
  from fetch_needs_lives [of test_config net_no_lives test_city, THEN conjunct2, rule_format,
      OF conjI [OF g conjI [OF c conjI [OF w e]]]]
  have 2: "fst (get_weather_from_amap test_config net_no_lives test_city) = None" .
  from 1 2 show ?thesis by blast
qed

section \<open>Properties of the two actions\<close>

text \<open>
  C2. For a city that is empty or consists of white space only, \<open>query_weather\<close> and
  \<open>query_weather_forecast\<close> both return the validation message and produce no event:
  no request is sent (and nothing is logged).
\<close>

theorem blank_city_rejected:
  assumes "\<forall>c\<in>set city. py_isspace c"
  shows "query_weather cfg net fmt city = (Inr msg_invalid_city, [])
       \<and> query_weather_forecast cfg net fmt city days = (Inr msg_invalid_city, [])"
  using assms by (simp add: query_weather_def query_weather_forecast_def blank_iff ret_def)

theorem blank_city_rejected_witness:
  "py_isspace 0x20 \<and> py_isspace 0x3000 \<and> py_isspace 0x9
   \<and> query_weather \<lparr>API_KEY = [], API_BASE_URL = [], TIMEOUT = 10\<rparr> (\<lambda>_ _ _. Inl RequestError)
        (\<lambda>_. []) [0x20, 0x3000, 0x9] = (Inr msg_invalid_city, [])
   \<and> query_weather_forecast \<lparr>API_KEY = [], API_BASE_URL = [], TIMEOUT = 10\<rparr>
        (\<lambda>_ _ _. Inl RequestError) (\<lambda>_. []) [0x20, 0x3000, 0x9] 3 = (Inr msg_invalid_city, [])"
proof -
  have h: "\<forall>c\<in>set [0x20, 0x3000, 0x9]. py_isspace c"
    by (simp add: py_isspace_def)
  show ?thesis
    using h blank_city_rejected [OF h, of "\<lparr>API_KEY = [], API_BASE_URL = [], TIMEOUT = 10\<rparr>"
        "\<lambda>_ _ _. Inl RequestError" "\<lambda>_. []" 3]
    by simp
qed

text \<open>
  C3. For a city that is not blank, when the fetch returns no data (which is what it
  does whenever anything raises inside its \<open>try\<close>), \<open>query_weather\<close> raises nothing
  and returns the failure text: the cross mark U+274C, "cannot obtain", the city as given
  (hence also the trimmed city), and the list of possible causes.
\<close>

theorem lookup_failure_is_text:
  assumes "\<not> blank city"
    and "fst (get_weather_from_amap cfg net (py_strip city)) = None
         \<or> (\<exists>e. fst (amap_try cfg net (py_strip city)) = Inl e)"
  shows "\<exists>s. fst (query_weather cfg net fmt city) = Inr s
           \<and> s = pre_failure @ city @ post_failure_causes
           \<and> py_contains s city \<and> py_contains s (py_strip city)
           \<and> py_contains s [0x274C] \<and> py_contains s [0x65E0, 0x6CD5, 0x83B7, 0x53D6]"
proof -
  let ?s = "pre_failure @ city @ post_failure_causes"
  have "fst (get_weather_from_amap cfg net (py_strip city)) = None"
    using assms(2) try_raises_None by blast
  then have r: "fst (query_weather cfg net fmt city) = Inr ?s"
    using assms(1) by (simp add: query_weather_result)
  have c: "py_contains ?s city"
    by (rule sublist_appendI)
  then have st: "py_contains ?s (py_strip city)"
    using py_strip_sublist [of city] by (rule sublist_order.order_trans [rotated])
  have "?s = [] @ [0x274C] @ (ascii '' '' @ [0x65E0, 0x6CD5, 0x83B7, 0x53D6] @ ascii '' '' @ city
                 @ post_failure_causes)"
    by (simp add: pre_failure_def)
  then have x: "py_contains ?s [0x274C]"
    by (metis sublist_appendI)
  have "?s = ([0x274C] @ ascii '' '') @ [0x65E0, 0x6CD5, 0x83B7, 0x53D6]
               @ (ascii '' '' @ city @ post_failure_causes)"
    by (simp add: pre_failure_def)
  then have y: "py_contains ?s [0x65E0, 0x6CD5, 0x83B7, 0x53D6]"
    by (metis sublist_appendI)
  from r c st x y show ?thesis by blast
qed

theorem lookup_failure_is_text_witness:
  "(\<exists>s. fst (query_weather test_config net_unknown_city (\<lambda>_. []) (ascii '' '' @ test_city)) = Inr s
       \<and> s = pre_failure @ (ascii '' '' @ test_city) @ post_failure_causes
       \<and> py_contains s (ascii '' '' @ test_city) \<and> py_contains s test_city
       \<and> py_contains s [0x274C] \<and> py_contains s [0x65E0, 0x6CD5, 0x83B7, 0x53D6])
 \<and> (\<exists>s. fst (query_weather test_config net_down (\<lambda>_. []) test_city) = Inr s
       \<and> s = pre_failure @ test_city @ post_failure_causes)"
proof -
  have s: "py_strip (ascii '' '' @ test_city) = test_city"
    by (simp add: py_strip_def py_isspace_def ascii_def test_city_def)
  have b: "\<not> blank (ascii '' '' @ test_city)"
    by (simp add: blank_def s) (simp add: test_city_def)
  have n: "fst (get_weather_from_amap test_config net_unknown_city
                  (py_strip (ascii '' '' @ test_city))) = None"
    by (simp add: s fetch_unknown_city)
  from lookup_failure_is_text [OF b disjI1 [OF n], of "\<lambda>_. []"]
  have 1: "\<exists>s. fst (query_weather test_config net_unknown_city (\<lambda>_. []) (ascii '' '' @ test_city))
            = Inr s
       \<and> s = pre_failure @ (ascii '' '' @ test_city) @ post_failure_causes
       \<and> py_contains s (ascii '' '' @ test_city) \<and> py_contains s test_city
       \<and> py_contains s [0x274C] \<and> py_contains s [0x65E0, 0x6CD5, 0x83B7, 0x53D6]"
    by (simp add: s)
  have "\<exists>e. fst (amap_try test_config net_down (py_strip test_city)) = Inl e"
    by (simp add: amap_try_def bind_io_def http_get_def net_down_def)
  from lookup_failure_is_text [OF test_city_not_blank disjI2 [OF this], of "\<lambda>_. []"]
  have 2: "\<exists>s. fst (query_weather test_config net_down (\<lambda>_. []) test_city) = Inr s
       \<and> s = pre_failure @ test_city @ post_failure_causes"
    by blast
  from 1 2 show ?thesis by blast
qed

text \<open>
  C1. \<open>query_weather_forecast\<close> clamps \<open>days\<close> into 1 to 7: a value below 1 becomes 1,
  a value above 7 becomes 7, any other value stays (so 0 becomes 1, 10 becomes 7, 5 stays
  5). The clamped value is what the first logged line shows, and a call with \<open>days\<close>
  does and returns what the call with the clamped value does. The returned outcome is
  the same for any two values of \<open>days\<close>. And for a city that is not blank a returned
  string is the failure text (the fetch gave no data), or the lines of the
  forecast-disabled result alone (no forecast, or no casts in its first group), or those
  lines followed by the header and by the lines of the first three casts of the first
  forecast group, one per cast: \<open>min 3 (length casts)\<close> forecast lines, so at most three.
\<close>

theorem days_clamped_lines_capped:
  "clamp_days days = (if days < 1 then 1 else if 7 < days then 7 else days)
 \<and> 1 \<le> clamp_days days \<and> clamp_days days \<le> 7
 \<and> clamp_days 0 = 1 \<and> clamp_days 10 = 7 \<and> clamp_days 5 = 5
 \<and> query_weather_forecast cfg net fmt city days
     = query_weather_forecast cfg net fmt city (clamp_days days)
 \<and> query_weather_forecast cfg net fmt city 0 = query_weather_forecast cfg net fmt city 1
 \<and> query_weather_forecast cfg net fmt city 10 = query_weather_forecast cfg net fmt city 7
 \<and> (\<not> blank city \<longrightarrow>
      (\<exists>rest. snd (query_weather_forecast cfg net fmt city days)
         = LogInfo (log_query_forecast @ city @ ascii '', '' @ str_int (clamp_days days)
                    @ log_days) # rest))
 \<and> fst (query_weather_forecast cfg net fmt city days)
     = fst (query_weather_forecast cfg net fmt city days')
 \<and> (\<forall>s. \<not> blank city \<and> fst (query_weather_forecast cfg net fmt city days) = Inr s \<longrightarrow>
        (fst (get_weather_from_amap cfg net (py_strip city)) = None
         \<and> s = pre_failure @ city @ post_weather_info)
      \<or> (\<exists>data base.
            fst (get_weather_from_amap cfg net (py_strip city)) = Some data
          \<and> result_lines fmt data False = Inr base
          \<and> ((result_lines fmt data True = Inr base \<and> s = py_join nl base
               \<and> (\<not> py_truthy (dict_get data k_forecasts (JArr []))
                  \<or> (\<exists>fc groups.
                        dict_get data k_forecasts (JArr []) = JArr (JObj fc # groups)
                      \<and> \<not> py_truthy (dict_get fc k_casts (JArr [])))))
             \<or> (\<exists>fc groups casts lines.
                    dict_get data k_forecasts (JArr []) = JArr (JObj fc # groups)
                  \<and> dict_get fc k_casts (JArr []) = JArr casts \<and> casts \<noteq> []
                  \<and> map (cast_line fmt) (take 3 casts) = map Inr lines
                  \<and> length lines = min 3 (length casts) \<and> length lines \<le> 3
                  \<and> result_lines fmt data True = Inr (base @ forecast_header # lines)
                  \<and> s = py_join nl (base @ forecast_header # lines)))))"
proof -
  have clamp: "query_weather_forecast cfg net fmt city d
     = query_weather_forecast cfg net fmt city (clamp_days d)" for d
    by (simp add: query_weather_forecast_def clamp_days_idem)
  have same: "fst (query_weather_forecast cfg net fmt city days)
     = fst (query_weather_forecast cfg net fmt city days')"
  proof (cases "blank city")
    case True
    then show ?thesis by (simp add: query_weather_forecast_def)
  next
    case False
    then show ?thesis by (simp add: query_weather_forecast_result)
  qed
  have log: "\<exists>rest. snd (query_weather_forecast cfg net fmt city days)
         = LogInfo (log_query_forecast @ city @ ascii '', '' @ str_int (clamp_days days)
                    @ log_days) # rest"
    if "\<not> blank city"
    using that by (simp add: query_weather_forecast_def Let_def bind_emit)
  have cap: "(fst (get_weather_from_amap cfg net (py_strip city)) = None
         \<and> s = pre_failure @ city @ post_weather_info)
      \<or> (\<exists>data base.
            fst (get_weather_from_amap cfg net (py_strip city)) = Some data
          \<and> result_lines fmt data False = Inr base
          \<and> ((result_lines fmt data True = Inr base \<and> s = py_join nl base
               \<and> (\<not> py_truthy (dict_get data k_forecasts (JArr []))
                  \<or> (\<exists>fc groups.
                        dict_get data k_forecasts (JArr []) = JArr (JObj fc # groups)
                      \<and> \<not> py_truthy (dict_get fc k_casts (JArr [])))))
             \<or> (\<exists>fc groups casts lines.
                    dict_get data k_forecasts (JArr []) = JArr (JObj fc # groups)
                  \<and> dict_get fc k_casts (JArr []) = JArr casts \<and> casts \<noteq> []
                  \<and> map (cast_line fmt) (take 3 casts) = map Inr lines
                  \<and> length lines = min 3 (length casts) \<and> length lines \<le> 3
                  \<and> result_lines fmt data True = Inr (base @ forecast_header # lines)
                  \<and> s = py_join nl (base @ forecast_header # lines))))"
    if nb: "\<not> blank city" and s: "fst (query_weather_forecast cfg net fmt city days) = Inr s"
    for s
  proof (cases "fst (get_weather_from_amap cfg net (py_strip city))")
    case None
    with s nb show ?thesis by (simp add: query_weather_forecast_result)
  next
    case (Some data)
    from fetch_Some_nonempty [OF Some] have ne: "data \<noteq> []" .
    from fetch_Some_lives [OF Some] have t: "py_truthy (dict_get data k_lives (JArr []))" .
    from Some ne s nb have f: "format_weather_result fmt data True = Inr s"
      by (simp add: query_weather_forecast_result)
    from f obtain r' where r': "result_lines fmt data True = Inr r'" and sr: "s = py_join nl r'"
      by (auto simp: format_truthy [OF t] seq_eq_Inr)
    from r' obtain live base where live: "py_index0 (dict_get data k_lives (JArr [])) = Inr live"
      and base: "live_result fmt (dict_get data k_city (JStr default_city)) live = Inr base"
      and fs: "forecast_section fmt data base = Inr r'"
      by (auto simp: result_lines_def seq_eq_Inr)
    have off: "result_lines fmt data False = Inr base"
      by (simp add: result_lines_def live base)
    from forecast_section_cases [OF fs] consider
      (same) "r' = base"
        "\<not> py_truthy (dict_get data k_forecasts (JArr []))
         \<or> (\<exists>fc groups. dict_get data k_forecasts (JArr []) = JArr (JObj fc # groups)
               \<and> \<not> py_truthy (dict_get fc k_casts (JArr [])))"
    | (more) fc groups casts lines where
        "dict_get data k_forecasts (JArr []) = JArr (JObj fc # groups)"
        "dict_get fc k_casts (JArr []) = JArr casts" "casts \<noteq> []"
        "map (cast_line fmt) (take 3 casts) = map Inr lines"
        "r' = base @ forecast_header # lines"
      by blast
    then have "(result_lines fmt data True = Inr base \<and> s = py_join nl base
               \<and> (\<not> py_truthy (dict_get data k_forecasts (JArr []))
                  \<or> (\<exists>fc groups.
                        dict_get data k_forecasts (JArr []) = JArr (JObj fc # groups)
                      \<and> \<not> py_truthy (dict_get fc k_casts (JArr [])))))
             \<or> (\<exists>fc groups casts lines.
                    dict_get data k_forecasts (JArr []) = JArr (JObj fc # groups)
                  \<and> dict_get fc k_casts (JArr []) = JArr casts \<and> casts \<noteq> []
                  \<and> map (cast_line fmt) (take 3 casts) = map Inr lines
                  \<and> length lines = min 3 (length casts) \<and> length lines \<le> 3
                  \<and> result_lines fmt data True = Inr (base @ forecast_header # lines)
                  \<and> s = py_join nl (base @ forecast_header # lines))"
    proof cases
      case same
      with r' sr have "result_lines fmt data True = Inr base \<and> s = py_join nl base" by simp
      with same(2) show ?thesis by blast
    next
      case more
      from more(4) have "length (take 3 casts) = length lines"
        by (rule map_eq_imp_length_eq)
      then have len: "length lines = min 3 (length casts)"
        by (simp add: min.commute)
      then have "length lines \<le> 3" by simp
      with more len r' sr show ?thesis by blast
    qed
    with Some off show ?thesis by blast
  qed
  have c0: "clamp_days 0 = 1" and c10: "clamp_days 10 = 7" and c5: "clamp_days 5 = 5"
    by (simp_all add: clamp_days_def)
  have r: "1 \<le> clamp_days days \<and> clamp_days days \<le> 7"
    by (simp add: clamp_days_def)
  from clamp [of 0] c0 have q0: "query_weather_forecast cfg net fmt city 0
      = query_weather_forecast cfg net fmt city 1" by simp
  from clamp [of 10] c10 have q10: "query_weather_forecast cfg net fmt city 10
      = query_weather_forecast cfg net fmt city 7" by simp
  from clamp_days_cases [of days] r c0 c10 c5 clamp [of days] q0 q10 log same cap show ?thesis
    by blast
qed

theorem days_clamped_lines_capped_witness:
  "query_weather_forecast test_config net_ok (\<lambda>_. []) test_city 10
     = query_weather_forecast test_config net_ok (\<lambda>_. []) test_city 7
 \<and> fst (query_weather_forecast test_config net_ok (\<lambda>_. []) test_city 0)
     = fst (query_weather_forecast test_config net_ok (\<lambda>_. []) test_city 5)
 \<and> (\<exists>rest. snd (query_weather_forecast test_config net_ok (\<lambda>_. []) test_city 10)
       = LogInfo (log_query_forecast @ test_city @ ascii '', 7'' @ log_days) # rest)
 \<and> fst (query_weather_forecast test_config net_ok (\<lambda>_. []) test_city 10)
     = Inr (py_join nl
        [lbl_city @ test_city,
         lbl_temperature @ ascii ''25'' @ unit_celsius,
         lbl_humidity @ ascii ''50'' @ ascii ''%'',
         lbl_wind @ ascii ''3'' @ ascii '' '' @ [0x5317] @ unit_level,
         lbl_weather @ [0x6674],
         lbl_visibility @ ascii ''10'' @ unit_metre,
         lbl_reporttime @ ascii ''2026-01-29 12:00:00'',
         forecast_header,
         ascii ''  2026-01-31'' @ cast_week @ ascii ''1'' @ cast_day @ [0x6674] @ ascii '' 11''
           @ cast_night @ [0x9634] @ ascii '' 1'' @ unit_celsius,
         ascii ''  2026-01-32'' @ cast_week @ ascii ''2'' @ cast_day @ [0x6674] @ ascii '' 12''
           @ cast_night @ [0x9634] @ ascii '' 2'' @ unit_celsius,
         ascii ''  2026-01-33'' @ cast_week @ ascii ''3'' @ cast_day @ [0x6674] @ ascii '' 13''
           @ cast_night @ [0x9634] @ ascii '' 3'' @ unit_celsius])"
proof -
  note t = days_clamped_lines_capped [of _ test_config net_ok "\<lambda>_. []" test_city]
  note tail = t [THEN conjunct2, THEN conjunct2, THEN conjunct2, THEN conjunct2,
      THEN conjunct2, THEN conjunct2, THEN conjunct2]
  from tail [of 10 0, THEN conjunct2] have 1: "query_weather_forecast test_config net_ok (\<lambda>_. []) test_city 10
     = query_weather_forecast test_config net_ok (\<lambda>_. []) test_city 7"
    by (rule conjunct1)
  from tail [of 0 5, THEN conjunct2, THEN conjunct2, THEN conjunct2]
  have 2: "fst (query_weather_forecast test_config net_ok (\<lambda>_. []) test_city 0)
     = fst (query_weather_forecast test_config net_ok (\<lambda>_. []) test_city 5)"
    by (rule conjunct1)
  have seven: "str_int (clamp_days 10) = ascii ''7''"
    by (simp add: clamp_days_def str_int_def str_nat.simps ascii_def)
  from tail [of 10 0, THEN conjunct2, THEN conjunct2, THEN conjunct1, rule_format,
      OF test_city_not_blank]
  have 3: "\<exists>rest. snd (query_weather_forecast test_config net_ok (\<lambda>_. []) test_city 10)
       = LogInfo (log_query_forecast @ test_city @ ascii '', 7'' @ log_days) # rest"
    by (simp add: seven) (simp add: ascii_def)
  from query_forecast_returns obtain s where
    s: "fst (query_weather_forecast test_config net_ok (\<lambda>_. []) test_city 10) = Inr s"
    by blast
  have take3: "take 3 [JObj (day 1), JObj (day 2), JObj (day 3), JObj (day 4)]
      = [JObj (day 1), JObj (day 2), JObj (day 3)]"
    by (simp add: numeral_3_eq_3)
  have casts: "dict_get [(k_casts, JArr [JObj (day 1), JObj (day 2), JObj (day 3), JObj (day 4)])]
                 k_casts (JArr [])
      = JArr [JObj (day 1), JObj (day 2), JObj (day 3), JObj (day 4)]"
    by (simp add: dict_get_def)
  from tail [of 10 0, THEN conjunct2, THEN conjunct2, THEN conjunct2, THEN conjunct2,
      rule_format, OF conjI [OF test_city_not_blank s]]
  have "\<exists>lines. map Inr lines = [cast_line (\<lambda>_. []) (JObj (day 1)),
        cast_line (\<lambda>_. []) (JObj (day 2)), cast_line (\<lambda>_. []) (JObj (day 3))]
      \<and> s = py_join nl (
        [lbl_city @ test_city,
         lbl_temperature @ ascii ''25'' @ unit_celsius,
         lbl_humidity @ ascii ''50'' @ ascii ''%'',
         lbl_wind @ ascii ''3'' @ ascii '' '' @ [0x5317] @ unit_level,
         lbl_weather @ [0x6674],
         lbl_visibility @ ascii ''10'' @ unit_metre,
         lbl_reporttime @ ascii ''2026-01-29 12:00:00''] @ forecast_header # lines)"
    apply (simp only: fetched_report option.simps option.inject simp_thms)
    apply (elim exE conjE)
    apply (simp only: forecast_report_base forecast_report_forecasts sum.inject json.inject
        list.inject simp_thms py_truthy.simps list.simps)
    apply (elim disjE exE conjE)
     apply hypsubst
     apply (simp only: casts py_truthy.simps list.simps simp_thms)
    apply hypsubst
    apply (simp only: casts json.inject)
    apply hypsubst
    apply (simp only: take3 list.map)
    apply (rule exI)
    apply (rule conjI)
     apply (rule refl)
    apply (rule refl)
    done
  then obtain lines where l: "map Inr lines = [cast_line (\<lambda>_. []) (JObj (day 1)),
        cast_line (\<lambda>_. []) (JObj (day 2)), cast_line (\<lambda>_. []) (JObj (day 3))]"
    and r: "s = py_join nl (
        [lbl_city @ test_city,
         lbl_temperature @ ascii ''25'' @ unit_celsius,
         lbl_humidity @ ascii ''50'' @ ascii ''%'',
         lbl_wind @ ascii ''3'' @ ascii '' '' @ [0x5317] @ unit_level,
         lbl_weather @ [0x6674],
         lbl_visibility @ ascii ''10'' @ unit_metre,
         lbl_reporttime @ ascii ''2026-01-29 12:00:00''] @ forecast_header # lines)"
    by iprover
  from l have "lines =
        [ascii ''  2026-01-31'' @ cast_week @ ascii ''1'' @ cast_day @ [0x6674] @ ascii '' 11''
           @ cast_night @ [0x9634] @ ascii '' 1'' @ unit_celsius,
         ascii ''  2026-01-32'' @ cast_week @ ascii ''2'' @ cast_day @ [0x6674] @ ascii '' 12''
           @ cast_night @ [0x9634] @ ascii '' 2'' @ unit_celsius,
         ascii ''  2026-01-33'' @ cast_week @ ascii ''3'' @ cast_day @ [0x6674] @ ascii '' 13''
           @ cast_night @ [0x9634] @ ascii '' 3'' @ unit_celsius]"
    by (simp only: day_lines) (auto simp: map_eq_Cons_conv)
  with r have 4: "s = py_join nl
        [lbl_city @ test_city,
         lbl_temperature @ ascii ''25'' @ unit_celsius,
         lbl_humidity @ ascii ''50'' @ ascii ''%'',
         lbl_wind @ ascii ''3'' @ ascii '' '' @ [0x5317] @ unit_level,
         lbl_weather @ [0x6674],
         lbl_visibility @ ascii ''10'' @ unit_metre,
         lbl_reporttime @ ascii ''2026-01-29 12:00:00'',
         forecast_header,
         ascii ''  2026-01-31'' @ cast_week @ ascii ''1'' @ cast_day @ [0x6674] @ ascii '' 11''
           @ cast_night @ [0x9634] @ ascii '' 1'' @ unit_celsius,
         ascii ''  2026-01-32'' @ cast_week @ ascii ''2'' @ cast_day @ [0x6674] @ ascii '' 12''
           @ cast_night @ [0x9634] @ ascii '' 2'' @ unit_celsius,
         ascii ''  2026-01-33'' @ cast_week @ ascii ''3'' @ cast_day @ [0x6674] @ ascii '' 13''
           @ cast_night @ [0x9634] @ ascii '' 3'' @ unit_celsius]"
    by (simp only: append_Cons append_Nil)
  from 1 2 3 s 4 show ?thesis by blast
qed

end
